theory Spec2Isabelle
  imports Main "HOL-Library.AList"
begin

unbundle bit_operations_syntax

section \<open>The VScript debug session: a model of the protocol and session engine\<close>

text \<open>
  The sources are TypeScript: \<open>vscriptDebug.ts\<close> (the session class with the socket
  handlers and the requests), \<open>watches.ts\<close>, \<open>parsing.ts\<close>, \<open>fileReferences.ts\<close>,
  \<open>utilities.ts\<close> and \<open>customInterfaces.ts\<close>. The session object is a record that every operation takes
  and returns; what is written to the socket and what is sent to the front end are
  two lists of the record, in the order of the calls. Identifiers keep the names of the
  sources; fields of different classes that share a name carry the class as a prefix.
\<close>

subsection \<open>JavaScript strings and numbers\<close>

definition CR :: char where
  "CR = CHR 0x0D"

definition LF :: char where
  "LF = CHR 0x0A"

definition CRLF :: string where
  "CRLF = [CR, LF]"

definition endsWith :: "string \<Rightarrow> string \<Rightarrow> bool" where
  \<comment> \<open>\<open>s.endsWith(t)\<close>\<close>
  "endsWith s t = (length t \<le> length s \<and> drop (length s - length t) s = t)"

definition startsWith :: "string \<Rightarrow> string \<Rightarrow> bool" where
  "startsWith s t = (take (length t) s = t)"

fun includesStr :: "string \<Rightarrow> string \<Rightarrow> bool" where
  \<comment> \<open>\<open>s.includes(t)\<close>: \<open>t\<close> occurs in \<open>s\<close> at some index\<close>
  "includesStr [] t = (t = [])"
| "includesStr (c # cs) t = (startsWith (c # cs) t \<or> includesStr cs t)"

definition includesFrom :: "string \<Rightarrow> string \<Rightarrow> nat \<Rightarrow> bool" where
  \<comment> \<open>\<open>s.includes(t, position)\<close>: the search starts at index \<open>position\<close>\<close>
  "includesFrom s t position = includesStr (drop position s) t"

definition slice0 :: "string \<Rightarrow> nat \<Rightarrow> string" where
  \<comment> \<open>\<open>s.slice(0, n)\<close>\<close>
  "slice0 s n = take n s"

fun splitCRLF :: "string \<Rightarrow> string \<Rightarrow> string list" where
  \<comment> \<open>\<open>s.split("\r\n")\<close>, with the segment read so far as the first argument\<close>
  "splitCRLF cur [] = [cur]"
| "splitCRLF cur [c] = [cur @ [c]]"
| "splitCRLF cur (c # d # ds) =
     (if c = CR \<and> d = LF then cur # splitCRLF [] ds else splitCRLF (cur @ [c]) (d # ds))"

definition split :: "string \<Rightarrow> string list" where
  "split s = splitCRLF [] s"

definition hexDigits :: string where
  "hexDigits = ''0123456789abcdef''"

fun toHexNat :: "nat \<Rightarrow> string" where
  "toHexNat n =
     (if n < 16 then [hexDigits ! n] else toHexNat (n div 16) @ [hexDigits ! (n mod 16)])"

declare toHexNat.simps [simp del]

definition toString16 :: "int \<Rightarrow> string" where
  \<comment> \<open>\<open>n.toString(16)\<close> of an integral number\<close>
  "toString16 n = (if n < 0 then CHR ''-'' # toHexNat (nat (- n)) else toHexNat (nat n))"

definition decDigits :: string where
  "decDigits = ''0123456789''"

fun toDecNat :: "nat \<Rightarrow> string" where
  "toDecNat n =
     (if n < 10 then [decDigits ! n] else toDecNat (n div 10) @ [decDigits ! (n mod 10)])"

declare toDecNat.simps [simp del]

text \<open>
  Reference ids and watch ids travel as decimal integers in attribute values. The
  numbers of the model are the integers and \<open>NaN\<close>: \<open>Number\<close> reads an optional
  minus sign and decimal digits (the empty string is 0, as in JavaScript), and any
  other text is \<open>NaN\<close>; \<open>String\<close> prints a number back.
\<close>

datatype jsnum = Num int | NaN

definition digitValue :: "char \<Rightarrow> nat option" where
  "digitValue c =
     (let n = (of_char c :: nat) in if 48 \<le> n \<and> n \<le> 57 then Some (n - 48) else None)"

fun readDigits :: "nat \<Rightarrow> string \<Rightarrow> nat option" where
  "readDigits acc [] = Some acc"
| "readDigits acc (c # cs) =
     (case digitValue c of None \<Rightarrow> None | Some d \<Rightarrow> readDigits (acc * 10 + d) cs)"

definition Number :: "string \<Rightarrow> jsnum" where
  "Number s =
     (case s of
        [] \<Rightarrow> Num 0
      | c # cs \<Rightarrow>
          if c = CHR ''-'' then
            (if cs = [] then NaN
             else case readDigits 0 cs of None \<Rightarrow> NaN | Some n \<Rightarrow> Num (- int n))
          else (case readDigits 0 (c # cs) of None \<Rightarrow> NaN | Some n \<Rightarrow> Num (int n)))"

definition String :: "jsnum \<Rightarrow> string" where
  "String n =
     (case n of
        NaN \<Rightarrow> ''NaN''
      | Num i \<Rightarrow> if i < 0 then CHR ''-'' # toDecNat (nat (- i)) else toDecNat (nat i))"

definition plusOne :: "jsnum \<Rightarrow> jsnum" where
  \<comment> \<open>\<open>n + 1\<close>\<close>
  "plusOne n = (case n of NaN \<Rightarrow> NaN | Num i \<Rightarrow> Num (i + 1))"

definition hasReservedBit :: "int \<Rightarrow> bool" where
  \<comment> \<open>\<open>id & 0x100000\<close> is truthy: the bit reserved for entity-data watches is set\<close>
  "hasReservedBit i = (i AND 0x100000 \<noteq> 0)"

fun jsAssign :: "'a option list \<Rightarrow> nat \<Rightarrow> 'a \<Rightarrow> 'a option list" where
  \<comment> \<open>\<open>xs[i] = x\<close> on a JavaScript array: an index past the end extends the array,
      leaving holes\<close>
  "jsAssign xs i x =
     (if i < length xs then xs[i := Some x]
      else xs @ replicate (i - length xs) None @ [Some x])"

subsection \<open>customInterfaces.ts\<close>

datatype DebuggerState = runnning | stopped | errored | preResume | ready | disconnected

datatype VScriptVersion = squirrel2 | squirrel3

datatype WatchStatus = ok | error

datatype IBasicType =
    NumberOf string  \<comment> \<open>\<open>Number(text)\<close> of a scalar value, kept as its text\<close>
  | Boolean bool
  | Text string

record DebuggerWatch =
  watch_id :: int
  watch_expression :: string
  watch_values :: "IBasicType option list"
  watch_variableReference :: jsnum
  watch_type :: string
  watch_status :: "WatchStatus option list"
  watch_holderReference :: int
  watch_displayName :: string
  watch_hidden :: bool
  watch_frameId :: nat
  watch_isValid :: bool

definition new_DebuggerWatch :: "int \<Rightarrow> string \<Rightarrow> DebuggerWatch" where
  "new_DebuggerWatch i expr =
     \<lparr>watch_id = i, watch_expression = expr, watch_values = [],
      watch_variableReference = Num 0, watch_type = [], watch_status = [],
      watch_holderReference = 0, watch_displayName = [], watch_hidden = False,
      watch_frameId = 0, watch_isValid = False\<rparr>"

record DebuggerVariable =
  var_name :: string
  var_value :: IBasicType
  var_type :: string
  var_variableReference :: jsnum
  var_ownerReference :: jsnum
  var_isIndexed :: bool
  var_nameType :: string
  var_variablePath :: string
  var_frameId :: nat
  var_hidden :: bool

definition new_DebuggerVariable :: "string \<Rightarrow> IBasicType \<Rightarrow> string \<Rightarrow> DebuggerVariable" where
  "new_DebuggerVariable n val t =
     \<lparr>var_name = n, var_value = val, var_type = t, var_variableReference = Num 0,
      var_ownerReference = Num 0, var_isIndexed = False, var_nameType = ''s'',
      var_variablePath = [], var_frameId = 0, var_hidden = False\<rparr>"

record ReferenceVariable =
  reference :: jsnum
  firstName :: string
  variableType :: string

text \<open>
  A tree node holds its element, its children and its depth. The \<open>parent\<close> link of
  the source points back up the tree; it is the position of the node in the tree here.
\<close>

datatype TreeNode =
  TreeNode (node_element: ReferenceVariable) (node_children: "TreeNode list") (node_depth: nat)

record FileReferenceData =
  fullpath :: string
  count :: nat

record IBreakpoint =
  bp_id :: nat
  bp_line :: int
  bp_verified :: bool

record ExceptionInformation =
  description :: string
  details_message :: string
  details_stackTrace :: string

subsection \<open>The frames of the debug server, as xml2js hands them over\<close>

text \<open>
  \<open>parseString\<close> of xml2js turns a frame into an object keyed by the root tag, every
  tag holding its attributes under \<open>$\<close> and its children as arrays. The records below
  are those objects for the frames of the protocol. An array that xml2js would not
  create (no child of that tag) is the empty list here, and the model says where the
  source fails on such an \<open>undefined\<close>.
\<close>

record XmlE =
  e_vt :: string
  e_v :: string
  e_kv :: string
  e_kt :: string

record XmlO =
  o_ref :: string
  o_type :: string
  o_typeof :: "string option"
  o_e :: "XmlE list"

record XmlW =
  w_id :: string
  w_status :: string
  w_val :: string
  w_type :: string

record XmlL =
  l_name :: string
  l_type :: string
  l_val :: string

record XmlCall =
  call_fnc :: string
  call_src :: string
  call_line :: string
  call_w :: "XmlW list"
  call_l :: "XmlL list"

record XmlBreak =
  break_type :: string
  break_line :: string
  break_src :: string
  break_desc :: "string option"
  break_error :: "string option"

datatype Frame =
    AddBreakpoint string string  \<comment> \<open>root \<open>addbreakpoint\<close>: line, src\<close>
  | Break XmlBreak "XmlO list" "XmlCall list"  \<comment> \<open>root \<open>break\<close>: attributes, objs, calls\<close>
  | Update "XmlO list" "XmlCall list"  \<comment> \<open>root \<open>update\<close>: objs, calls\<close>
  | OtherRoot string  \<comment> \<open>any other root tag\<close>

subsection \<open>The session\<close>

record Source =
  source_name :: string
  source_path :: string
  source_presentationHint :: "string option"

record StackFrame =
  frame_id :: nat
  frame_name :: string
  frame_source :: Source
  frame_line :: jsnum
  frame_presentationHint :: string

datatype Event =
    ContinuedEvent
  | StoppedEvent string "string option"  \<comment> \<open>reason, text\<close>
  | OutputEvent string string  \<comment> \<open>output, category\<close>
  | InvalidatedEvent "string list"
  | BreakpointEvent string IBreakpoint
  | TerminatedEvent
  | ErrorMessage string  \<comment> \<open>\<open>window.showErrorMessage\<close>\<close>
  | WarningMessage string  \<comment> \<open>\<open>window.showWarningMessage\<close>\<close>
  | FileNotRealMessage  \<comment> \<open>\<open>presentFileNotRealMessage\<close>\<close>
  | QuickPick "string list"  \<comment> \<open>\<open>window.showQuickPick\<close>, with the files it offers\<close>

record Config =
  rememberFileReferencesDuringSession :: bool
  displayRootTable :: bool

text \<open>
  \<open>_breakpointsRefCount\<close> is a \<open>Map<[string, number], number>\<close>: its keys are array
  objects, and a JavaScript \<open>Map\<close> compares object keys by identity. A key of the model
  is therefore the array with its address; \<open>nextObject\<close> is the next free address, and
  every array literal the source evaluates takes a new one.
\<close>

type_synonym ArrayKey = "nat \<times> string \<times> int"

record Session =
  socket :: "string list"  \<comment> \<open>what \<open>socket.write\<close> has sent, oldest first\<close>
  events :: "Event list"  \<comment> \<open>what \<open>sendEvent\<close> and the window have shown, oldest first\<close>
  config :: Config
  localVariables :: "(jsnum \<times> DebuggerVariable list) list"
  rootVariables :: "DebuggerVariable list"
  rootTableReference :: jsnum
  usedVariableReferences :: "jsnum list"
  referenceTree :: TreeNode
  watches :: "DebuggerWatch list"
  watchesThisStep :: "int list"
  entityDataWatches :: "(int \<times> DebuggerWatch list) list"
  visitedTreeElements :: "jsnum list"
  currentParsedReferences :: "XmlO list"
  variableHandles :: "string list"
  resolvedFileReferences :: "(string \<times> FileReferenceData) list"
  notifiedFileBreakpoints :: "string list"
  debuggerState :: DebuggerState
  exceptionInfo :: ExceptionInformation
  currentFrameID :: int
  startingFrameID :: int
  stacktraces :: "StackFrame list"
  virtualReference :: int
  scriptVersion :: VScriptVersion
  watchID :: int
  entityDataWatchID :: int
  stackFrameID :: nat
  breakpoints :: "(string \<times> IBreakpoint list) list"
  bufferedData :: string
  breakpointID :: nat
  breakpointsRefCount :: "(ArrayKey \<times> int) list"
  nextObject :: nat
  additionalScriptDirectories :: "string list"
  resumeOnExceptions :: bool
  resumeTimer :: bool  \<comment> \<open>a timer is pending\<close>
  hideNativeFunctions :: bool
  hideClasses :: bool
  maxShortData :: nat
  enableDebugLogging :: bool

definition socketWrite :: "string \<Rightarrow> Session \<Rightarrow> Session" where
  \<comment> \<open>\<open>this.socket?.write(message, ascii)\<close>\<close>
  "socketWrite message s = s\<lparr>socket := socket s @ [message]\<rparr>"

definition sendEvent :: "Event \<Rightarrow> Session \<Rightarrow> Session" where
  "sendEvent ev s = s\<lparr>events := events s @ [ev]\<rparr>"

definition debugPrint :: "string \<Rightarrow> Session \<Rightarrow> Session" where
  "debugPrint message s =
     (if enableDebugLogging s then sendEvent (OutputEvent message ''console'') s else s)"

text \<open>
  \<open>arrayMapToArray\<close> of \<open>utilities.ts\<close> concatenates the arrays of a map, in the order of
  its entries.
\<close>

definition arrayMapToArray :: "('k \<times> 'v list) list \<Rightarrow> 'v list" where
  "arrayMapToArray m = concat (map snd m)"

subsection \<open>watches.ts\<close>


definition rwCommand :: "int \<Rightarrow> string" where
  \<comment> \<open>\<open>`rw 0x${id.toString(16)}`\<close>\<close>
  "rwCommand i = ''rw 0x'' @ toString16 i"



fun spliceFirst :: "('a \<Rightarrow> bool) \<Rightarrow> 'a list \<Rightarrow> 'a list" where
  \<comment> \<open>\<open>xs.splice(xs.indexOf(xs.find(p)), 1)\<close>: the first element that satisfies \<open>p\<close>
      leaves the array\<close>
  "spliceFirst p [] = []"
| "spliceFirst p (x # xs) = (if p x then xs else x # spliceFirst p xs)"

fun removeEntityDataWatch ::
  "int \<Rightarrow> (int \<times> DebuggerWatch list) list \<Rightarrow> ((int \<times> DebuggerWatch list) list) option" where
  \<comment> \<open>the loop over the buckets: the first bucket that holds the id loses that watch;
      \<open>None\<close> when no bucket holds it\<close>
  "removeEntityDataWatch i [] = None"
| "removeEntityDataWatch i ((key, val) # rest) =
     (case find (\<lambda>e. watch_id e = i) val of
        None \<Rightarrow> map_option (\<lambda>r. (key, val) # r) (removeEntityDataWatch i rest)
      | Some watch \<Rightarrow> Some ((key, spliceFirst (\<lambda>e. watch_id e = i) val) # rest))"

definition removeWatch :: "Session \<Rightarrow> int \<Rightarrow> bool \<Rightarrow> Session" where
  "removeWatch s i affectTables =
     (if \<not> affectTables then socketWrite (rwCommand i) s
      else if \<not> hasReservedBit i then
        (case find (\<lambda>e. watch_id e = i) (watches s) of
           None \<Rightarrow> s
         | Some watch \<Rightarrow>
             socketWrite (rwCommand i) (s\<lparr>watches := spliceFirst (\<lambda>e. watch_id e = i) (watches s)\<rparr>))
      else
        (case removeEntityDataWatch i (entityDataWatches s) of
           None \<Rightarrow> s
         | Some m \<Rightarrow> socketWrite (rwCommand i) (s\<lparr>entityDataWatches := m\<rparr>)))"

subsection \<open>vscriptDebug.ts: resuming and stepping out\<close>

definition resetFileReferences :: "Session \<Rightarrow> Session" where
  "resetFileReferences s = s\<lparr>resolvedFileReferences := []\<rparr>"

fun removeWatches :: "Session \<Rightarrow> DebuggerWatch list \<Rightarrow> Session" where
  \<comment> \<open>\<open>for(let watch of watches) removeWatch(this, watch.id, false)\<close>\<close>
  "removeWatches s [] = s"
| "removeWatches s (watch # ws) = removeWatches (removeWatch s (watch_id watch) False) ws"

definition resumeExecution :: "Session \<Rightarrow> Session" where
  "resumeExecution s =
     (let ws = arrayMapToArray (entityDataWatches s);
          s1 = (if \<not> rememberFileReferencesDuringSession (config s)
                then s\<lparr>resolvedFileReferences := []\<rparr> else s);
          s2 = removeWatches s1 ws;
          s3 = s2\<lparr>entityDataWatches := [], entityDataWatchID := 1000000\<rparr>;
          s4 = (if debuggerState s3 = errored
                then debugPrint ''Sending 'rd' message (ready)'' (socketWrite (''rd'' @ [LF]) s3)
                else s3);
          s5 = debugPrint ''Sending 'go' message (resume)'' (socketWrite (''go'' @ [LF]) s4)
      in s5\<lparr>debuggerState := ready\<rparr>)"

definition stepOut :: "Session \<Rightarrow> Session" where
  "stepOut s =
     (if length (stacktraces s) > 1
      then debugPrint ''Sending 'sr' message (step return)'' (socketWrite (''sr'' @ [LF]) s)
      else resumeExecution s)"

subsection \<open>The session as its constructor leaves it\<close>

definition rootReferenceTree :: TreeNode where
  "rootReferenceTree =
     TreeNode \<lparr>reference = Num 0, firstName = ''@root@'', variableType = ''r''\<rparr> [] 0"

definition new_VScriptDebugSession :: Session where
  \<comment> \<open>the field initialisers of the class, with nothing written or sent yet\<close>
  "new_VScriptDebugSession =
     \<lparr>socket = [], events = [],
      config = \<lparr>rememberFileReferencesDuringSession = False, displayRootTable = False\<rparr>,
      localVariables = [], rootVariables = [], rootTableReference = Num (- 1),
      usedVariableReferences = [Num 0], referenceTree = rootReferenceTree,
      watches = [], watchesThisStep = [], entityDataWatches = [],
      visitedTreeElements = [], currentParsedReferences = [], variableHandles = [],
      resolvedFileReferences = [], notifiedFileBreakpoints = [],
      debuggerState = disconnected,
      exceptionInfo = \<lparr>description = [], details_message = [], details_stackTrace = []\<rparr>,
      currentFrameID = - 1, startingFrameID = - 1, stacktraces = [],
      virtualReference = 10000, scriptVersion = squirrel2, watchID = 1,
      entityDataWatchID = 1000000, stackFrameID = 0, breakpoints = [], bufferedData = [],
      breakpointID = 0, breakpointsRefCount = [], nextObject = 0,
      additionalScriptDirectories = [], resumeOnExceptions = False, resumeTimer = False,
      hideNativeFunctions = True, hideClasses = False, maxShortData = 4, enableDebugLogging = False\<rparr>"

subsection \<open>What the sources take from elsewhere\<close>

text \<open>
  What the sources take from libraries, from the file system and from the user is a
  parameter of the model, collected in one record:
  \<open>parseString\<close> of xml2js (the error message, or the frame);
  \<open>xmlFormat\<close> of xml-formatter applied to the trimmed buffer (\<open>None\<close> when it throws);
  \<open>decode\<close> of html-entities;
  \<open>convertDebuggerPathToClient\<close> of the debug adapter library;
  \<open>path.relative\<close> and \<open>path.join\<close> of Node, which depend on the working directory
  and on the platform;
  what \<open>getScriptRootDirectories\<close> of \<open>utilities.ts\<close> reads from the workspace of the
  editor;
  what \<open>findFileRecusive\<close> of \<open>fileReferences.ts\<close> finds in the file system: the files of
  a name below a directory, or \<open>None\<close> when the directory cannot be read;
  whether \<open>stat\<close> succeeds on one of a list of files;
  and what the user chooses in the quick pick over a list of files and in the error
  message about a missing file.
\<close>

datatype QuickPickChoice =
    FileItem nat  \<comment> \<open>the index of the item\<close>
  | IgnoreAndStepOut
  | IgnoreAndResume
  | Ignore
  | NoChoice  \<comment> \<open>the quick pick was dismissed\<close>

datatype MessageChoice = ResumeButton | StepOutButton | IgnoreButton | NoButton

record Externals =
  parseString :: "string \<Rightarrow> string + Frame"
  xmlFormat :: "string \<Rightarrow> string option"
  decode :: "string option \<Rightarrow> string"
  convertDebuggerPathToClient :: "string \<Rightarrow> string"
  pathRelative :: "string \<Rightarrow> string \<Rightarrow> string"
  pathJoin :: "string \<Rightarrow> string \<Rightarrow> string"
  getScriptRootDirectories :: "string list"
  findFileRecusive :: "string \<Rightarrow> string \<Rightarrow> string list option"
  anyFileExists :: "string list \<Rightarrow> bool"
  showQuickPick :: "string list \<Rightarrow> QuickPickChoice"
  showMissingFile :: "string \<Rightarrow> MessageChoice"

subsection \<open>utilities.ts\<close>

text \<open>
  \<open>path.basename\<close> and \<open>path.dirname\<close> of Node are the POSIX ones, whose only separator
  is the forward slash. For \<open>basename\<close>, trailing slashes are dropped, and the name is
  what follows the last slash that remains. For \<open>dirname\<close>, the first character is never
  looked at as a separator: the result is what precedes the last slash that has a name
  after it, \<open>/\<close> or \<open>.\<close> when there is no such slash, and \<open>//\<close> when that slash is the
  second character of a path that starts with a slash.
\<close>

definition basename :: "string \<Rightarrow> string" where
  "basename p =
     rev (takeWhile (\<lambda>c. c \<noteq> CHR ''/'') (dropWhile (\<lambda>c. c = CHR ''/'') (rev p)))"

definition upToEnd :: "string \<Rightarrow> string" where
  \<comment> \<open>the path after its first character, read backwards from the last slash that
      has a name after it\<close>
  "upToEnd p =
     dropWhile (\<lambda>c. c \<noteq> CHR ''/'') (dropWhile (\<lambda>c. c = CHR ''/'') (rev (tl p)))"

definition dirname :: "string \<Rightarrow> string" where
  "dirname p =
     (if p = [] then ''.''
      else
        (let hasRoot = (hd p = CHR ''/'');
             endIndex = length (upToEnd p)
         in if endIndex = 0 then (if hasRoot then ''/'' else ''.'')
            else if hasRoot \<and> endIndex = 1 then ''//''
            else take endIndex p))"

definition climbed :: "string \<Rightarrow> nat" where
  \<comment> \<open>what is left to climb from a path: nothing from \<open>.\<close> and \<open>/\<close>\<close>
  "climbed p = (if p = ''.'' \<or> p = ''/'' then 0 else length p + 1)"

lemma dropWhile_same_length:
  "length (dropWhile P xs) = length xs \<Longrightarrow> dropWhile P xs = xs"
  using length_dropWhile_le[of P "tl xs"] by (cases xs) (auto split: if_splits)

lemma dirname_nonempty:
  "p \<noteq> [] \<Longrightarrow> dirname p =
      (if length (upToEnd p) = 0 then (if hd p = CHR ''/'' then ''/'' else ''.'')
       else if hd p = CHR ''/'' \<and> length (upToEnd p) = 1 then ''//''
       else take (length (upToEnd p)) p)"
  unfolding dirname_def Let_def by (rule if_not_P)

lemma upToEnd_short: "upToEnd p \<noteq> [] \<Longrightarrow> length (upToEnd p) + 2 \<le> length p"
proof -
  define afterName where "afterName = dropWhile (\<lambda>c. c = CHR ''/'') (rev (tl p))"
  assume nonempty: "upToEnd p \<noteq> []"
  have up: "upToEnd p = dropWhile (\<lambda>c. c \<noteq> CHR ''/'') afterName"
    by (simp only: upToEnd_def afterName_def)
  have le1: "length (upToEnd p) \<le> length afterName"
    unfolding up by (rule length_dropWhile_le)
  have le2: "length afterName \<le> length (tl p)"
    unfolding afterName_def using length_dropWhile_le[of _ "rev (tl p)"] by simp
  from nonempty up have ne: "afterName \<noteq> []" by auto
  have "\<not> (hd afterName = CHR ''/'')"
    unfolding afterName_def
    by (rule hd_dropWhile) (use ne in \<open>simp only: afterName_def not_False_eq_True\<close>)
  with ne have "upToEnd p \<noteq> afterName"
    unfolding up using length_dropWhile_le[of "\<lambda>c. c \<noteq> CHR ''/''" "tl afterName"]
    by (cases afterName) auto
  moreover have "length (upToEnd p) = length afterName \<Longrightarrow> upToEnd p = afterName"
    unfolding up by (rule dropWhile_same_length)
  ultimately have lt: "length (upToEnd p) < length afterName" using le1 by fastforce
  from ne le2 have "p \<noteq> []" by auto
  with lt le2 show ?thesis by (cases p) auto
qed

lemma dirname_dot: "dirname ''.'' = ''.''"
  by (simp add: dirname_def upToEnd_def)

lemma dirname_root: "dirname ''/'' = ''/''"
  by (simp add: dirname_def upToEnd_def)

lemma dirname_climbed: "p \<noteq> dirname p \<Longrightarrow> climbed (dirname p) < climbed p"
proof (cases "p = []")
  case True
  then show ?thesis by (simp add: dirname_def climbed_def)
next
  case False
  assume differs: "p \<noteq> dirname p"
  have notdot: "p \<noteq> ''.''" using differs dirname_dot by metis
  have notroot: "p \<noteq> ''/''" using differs dirname_root by metis
  note d = dirname_nonempty[OF False]
  show ?thesis
  proof (cases "upToEnd p = []")
    case True
    with d have "dirname p = ''/'' \<or> dirname p = ''.''" by simp
    then have "climbed (dirname p) = 0" by (auto simp add: climbed_def)
    moreover have "0 < climbed p" using notdot notroot by (simp add: climbed_def)
    ultimately show ?thesis by simp
  next
    case nonempty: False
    from upToEnd_short[OF nonempty] have two: "length (upToEnd p) + 2 \<le> length p" .
    have big: "climbed p = length p + 1" using notdot notroot by (simp add: climbed_def)
    show ?thesis
    proof (cases "hd p = CHR ''/'' \<and> length (upToEnd p) = 1")
      case True
      with d nonempty have "dirname p = ''//''" by simp
      then have "climbed (dirname p) = 3" by (simp add: climbed_def)
      with two True big show ?thesis by simp
    next
      case False
      with d nonempty have "dirname p = take (length (upToEnd p)) p" by auto
      then have "climbed (dirname p) \<le> length (upToEnd p) + 1" by (simp add: climbed_def)
      with two big show ?thesis by simp
    qed
  qed
qed

text \<open>
  The loop of \<open>getRelativeScriptPath\<close> climbs from the path to the nearest directory
  named \<open>vscripts\<close>; it gives up at a path that is its own directory.
\<close>

function climb :: "string \<Rightarrow> string option" where
  "climb currentpath =
     (if basename currentpath = ''vscripts'' then Some currentpath
      else if currentpath = dirname currentpath then None
      else climb (dirname currentpath))"
  by pat_completeness auto
termination
  by (relation "measure climbed") (simp_all add: dirname_climbed)

declare climb.simps [simp del]

definition getRelativeScriptPath :: "Externals \<Rightarrow> string \<Rightarrow> string" where
  "getRelativeScriptPath ext srcpath =
     (case climb srcpath of
        None \<Rightarrow> srcpath
      | Some currentpath \<Rightarrow> pathRelative ext currentpath srcpath)"

definition typeStringFromChar :: "string \<Rightarrow> string" where
  "typeStringFromChar ch =
     (if ch = ''i'' then ''integer''
      else if ch = ''f'' then ''float''
      else if ch = ''b'' then ''boolean''
      else if ch = ''s'' then ''string''
      else if ch = ''t'' then ''table''
      else if ch = ''a'' then ''array''
      else if ch = ''x'' then ''object''
      else if ch = ''y'' then ''class''
      else if ch = ''fn'' then ''function''
      else if ch = ''n'' then ''null''
      else if ch = ''g'' then ''function generator''
      else if ch = ''h'' then ''thread''
      else if ch = ''u'' then ''userdata''
      else ch)"

subsection \<open>fileReferences.ts\<close>

text \<open>
  \<open>resolveFileReference\<close> answers with one path, with an array of paths, or with
  \<open>undefined\<close>. The user's answer to a prompt is taken when the prompt is shown.
\<close>

datatype Resolved = SinglePath string | CandidateList "string list" | Unresolved

definition forwardSlashes :: "string \<Rightarrow> string" where
  \<comment> \<open>\<open>src.replace(/\\/g, "/")\<close>\<close>
  "forwardSlashes src = map (\<lambda>c. if c = CHR 0x5C then CHR ''/'' else c) src"

definition presentFileMissingMessage ::
    "Externals \<Rightarrow> Session \<Rightarrow> string \<Rightarrow> Resolved \<times> Session" where
  "presentFileMissingMessage ext s filename =
     (let s1 = sendEvent
                 (ErrorMessage
                    (''File: '' @ filename @ '' not found in the current workspace. Add paths '' @
                     ''in 'additionalScriptDirectories' to launch.json to search in more '' @
                     ''specified locations.'')) s;
          s2 = (case showMissingFile ext filename of
                  ResumeButton \<Rightarrow> resumeExecution s1
                | StepOutButton \<Rightarrow> stepOut s1
                | IgnoreButton \<Rightarrow> s1
                | NoButton \<Rightarrow> s1)
      in (SinglePath filename, s2))"

definition presentFileQuickPick ::
    "Externals \<Rightarrow> Session \<Rightarrow> string list list \<Rightarrow> Resolved \<times> Session" where
  \<comment> \<open>the items of the quick pick are the files, directory after directory, and then the
      three other options\<close>
  "presentFileQuickPick ext s filesArraysArray =
     (let fileNames = concat filesArraysArray;
          s1 = sendEvent (QuickPick fileNames) s
      in case showQuickPick ext fileNames of
           NoChoice \<Rightarrow> (Unresolved, s1)
         | FileItem itemIndex \<Rightarrow>
             (if itemIndex < length fileNames then (SinglePath (fileNames ! itemIndex), s1)
              else (Unresolved, s1))
         | IgnoreAndStepOut \<Rightarrow> (Unresolved, stepOut s1)
         | IgnoreAndResume \<Rightarrow> (Unresolved, resumeExecution s1)
         | Ignore \<Rightarrow> (Unresolved, s1))"

definition pushUnique :: "string list \<Rightarrow> string \<Rightarrow> string list" where
  \<comment> \<open>\<open>if(!fileNames.includes(filedir)) fileNames.push(filedir)\<close>, on forward slashes\<close>
  "pushUnique fileNames filedir =
     (let filedir = forwardSlashes filedir
      in if filedir \<in> set fileNames then fileNames else fileNames @ [filedir])"

definition chooseFile ::
    "Externals \<Rightarrow> Session \<Rightarrow> string \<Rightarrow> bool \<Rightarrow> bool \<Rightarrow> string list \<Rightarrow> string list list \<Rightarrow> bool \<Rightarrow>
       Resolved \<times> Session" where
  \<comment> \<open>the end of \<open>resolveFileReference\<close>, on the \<open>fileNames\<close> that were found\<close>
  "chooseFile ext s filename errorOnMissing askUser fileNames filesArraysArray l4d2_notFound =
     (if length fileNames > 1 then
        (if askUser then presentFileQuickPick ext s filesArraysArray
         else (CandidateList fileNames, s))
      else if length fileNames \<le> 0 \<or> l4d2_notFound then
        (if errorOnMissing then presentFileMissingMessage ext s filename
         else (SinglePath filename, s))
      else (SinglePath (hd fileNames), s))"

definition resolveFileReference ::
    "Externals \<Rightarrow> Session \<Rightarrow> string \<Rightarrow> bool \<Rightarrow> bool \<Rightarrow> Resolved \<times> Session" where
  \<comment> \<open>a name with the prefix is a full path: when \<open>stat\<close> succeeds on one candidate,
      \<open>fileIdx\<close> has been counted up to the number of directories by then, so that
      \<open>fileNames\<close> becomes \<open>[fileNames[fileIdx]]\<close>, an array of one \<open>undefined\<close>, and
      \<open>fileNames[0]\<close> is returned\<close>
  "resolveFileReference ext s filename errorOnMissing askUser =
     (let pathPrefix = ''scripts/vscripts'';
          scriptDirectories = getScriptRootDirectories ext @ additionalScriptDirectories s
      in if startsWith filename pathPrefix then
           (let fileNames =
                  map (\<lambda>scriptPath.
                         pathJoin ext scriptPath (drop (length pathPrefix + 1) filename))
                    scriptDirectories
            in if fileNames \<noteq> [] \<and> anyFileExists ext fileNames then (Unresolved, s)
               else chooseFile ext s filename errorOnMissing askUser fileNames [] True)
         else
           (let filesArraysArray =
                  List.map_filter (\<lambda>directory. findFileRecusive ext directory filename)
                    scriptDirectories;
                fileDirs = concat filesArraysArray;
                fileNames = foldl pushUnique [] fileDirs
            in chooseFile ext s filename errorOnMissing askUser fileNames filesArraysArray
                 False))"

text \<open>
  A function of the sources that can throw returns \<open>Inl TypeError\<close> where the source
  reads a property of \<open>undefined\<close> or iterates over \<open>undefined\<close>, and
  \<open>Inl LibraryError\<close> where a library function throws.
\<close>

datatype jsError = TypeError | LibraryError

subsection \<open>parsing.ts: entity handles, the reference tree, short representations\<close>

fun isVariableEHandleLoop :: "XmlO list \<Rightarrow> jsnum \<Rightarrow> bool" where
  "isVariableEHandleLoop [] ref = False"
| "isVariableEHandleLoop (obj # rest) ref =
     (if o_ref obj \<noteq> String ref then isVariableEHandleLoop rest ref
      else list_ex (\<lambda>element. e_vt element = ''native function'' \<and> e_kv element = ''entindex'')
             (o_e obj))"

definition isVariableEHandle :: "XmlO list \<Rightarrow> jsnum \<Rightarrow> jsError + bool" where
  \<comment> \<open>the empty list stands for \<open>undefined\<close>, which \<open>for ... of\<close> cannot iterate\<close>
  "isVariableEHandle referenceList ref =
     (if referenceList = [] then Inl TypeError
      else Inr (isVariableEHandleLoop referenceList ref))"

definition resetRootReferenceTree :: "TreeNode \<Rightarrow> TreeNode" where
  "resetRootReferenceTree tree =
     TreeNode \<lparr>reference = Num 0, firstName = ''@root@'', variableType = ''r''\<rparr> []
       (node_depth tree)"

definition isComplexDataType :: "string \<Rightarrow> bool" where
  "isComplexDataType shorttype =
     (shorttype = ''t'' \<or> shorttype = ''r'' \<or> shorttype = ''a'' \<or> shorttype = ''x'' \<or>
      shorttype = ''y'')"

text \<open>
  \<open>buildReferenceTree\<close> recurses through the object graph and pushes every reference it
  expands on \<open>searchedElementsList\<close>, which is an array of the session: what it has
  pushed stays pushed when a call throws. An outcome is therefore the list as the call
  leaves it, with the value returned unless the call threw. The recursion of the model
  is bounded by a fuel argument (\<open>None\<close>: the fuel ran out); the loop over the elements of
  an object is \<open>buildChildren\<close>, whose counter is the \<open>depth++\<close> of the source.
\<close>

datatype 'a outcome = Threw "jsnum list" | Returned 'a "jsnum list"

fun buildReferenceTree ::
    "nat \<Rightarrow> XmlO list \<Rightarrow> jsnum \<Rightarrow> string \<Rightarrow> string \<Rightarrow> nat \<Rightarrow> jsnum list \<Rightarrow>
       TreeNode option outcome option"
  and buildChildren ::
    "nat \<Rightarrow> XmlO list \<Rightarrow> XmlE list \<Rightarrow> nat \<Rightarrow> jsnum list \<Rightarrow> TreeNode list outcome option"
where
  "buildReferenceTree 0 referenceList serverReference name type depth searched = None"
| "buildReferenceTree (Suc fuel) referenceList serverReference name type depth searched =
     (case find (\<lambda>e. o_ref e = String serverReference) referenceList of
        None \<Rightarrow> Some (Threw searched)
      | Some obj \<Rightarrow>
          if o_e obj = [] then Some (Returned None searched)
          else if serverReference \<in> set searched then Some (Returned None searched)
          else
            (case buildChildren fuel referenceList (o_e obj) depth (searched @ [serverReference]) of
               None \<Rightarrow> None
             | Some (Threw searched') \<Rightarrow> Some (Threw searched')
             | Some (Returned nodes searched') \<Rightarrow>
                 Some (Returned
                   (Some (TreeNode
                      \<lparr>reference = serverReference, firstName = name, variableType = type\<rparr>
                      nodes depth))
                   searched')))"
| "buildChildren fuel referenceList [] depth searched = Some (Returned [] searched)"
| "buildChildren fuel referenceList (el # els) depth searched =
     (if isComplexDataType (e_vt el) then
        (case buildReferenceTree fuel referenceList (Number (e_v el)) (e_kv el) (e_vt el) depth
                searched of
           None \<Rightarrow> None
         | Some (Threw searched') \<Rightarrow> Some (Threw searched')
         | Some (Returned newNode searched') \<Rightarrow>
             (case buildChildren fuel referenceList els (depth + 1) searched' of
                None \<Rightarrow> None
              | Some (Threw searched'') \<Rightarrow> Some (Threw searched'')
              | Some (Returned nodes searched'') \<Rightarrow>
                  Some (Returned (case newNode of None \<Rightarrow> nodes | Some n \<Rightarrow> n # nodes)
                    searched'')))
      else buildChildren fuel referenceList els depth searched)"

definition enoughFuel :: "XmlO list \<Rightarrow> nat" where
  \<comment> \<open>more than the recursion can use: two more than the elements of all the objects\<close>
  "enoughFuel referenceList = length (concat (map o_e referenceList)) + 2"

fun treeReferences :: "TreeNode \<Rightarrow> jsnum list" where
  \<comment> \<open>the reference ids of the nodes of a tree, the root first\<close>
  "treeReferences (TreeNode el nodes d) = reference el # concat (map treeReferences nodes)"

definition buildReferenceTreeRun ::
    "XmlO list \<Rightarrow> jsnum \<Rightarrow> string \<Rightarrow> string \<Rightarrow> nat \<Rightarrow> jsnum list \<Rightarrow> TreeNode option outcome" where
  \<comment> \<open>a call of \<open>buildReferenceTree\<close> by the session: the fuel of \<open>enoughFuel\<close> never
      runs out (\<open>buildReferenceTree_terminates\<close> below), so the last case is never taken\<close>
  "buildReferenceTreeRun referenceList serverReference name type depth searched =
     (case buildReferenceTree (enoughFuel referenceList) referenceList serverReference name type
             depth searched of
        Some out \<Rightarrow> out
      | None \<Rightarrow> Threw searched)"

text \<open>
  The short representation of a structure. \<open>keyText\<close> is the switch over the key type
  of a table entry and \<open>valueText\<close> the switch over the type of the element; an element
  of type \<open>x\<close> that is no entity handle appends, for every object with its reference,
  \<open>Object\<close> or (when the object has a \<open>typeof\<close> attribute) the property \<open>obj['typeof']\<close>,
  which no object of xml2js has, so that the text \<open>undefined\<close> is appended.
\<close>

definition keyText :: "XmlO list \<Rightarrow> XmlE \<Rightarrow> string" where
  "keyText refs el =
     (let keyvalue = e_kv el; keytype = e_kt el in
      if keytype = ''s'' then keyvalue @ '' = ''
      else if keytype = ''a'' then ''Array [...] = ''
      else if keytype = ''t'' then ''Table {...} = ''
      else if keytype = ''r'' then ''[REFERENCE] = ''
      else if keytype = ''x'' then
        (if isVariableEHandleLoop refs (Number (e_kv el)) then ''[Entity handle] = ''
         else ''[Object] = '')
      else if keytype = ''y'' then ''[Class] = ''
      else if keytype = ''fn'' then ''[Function] = ''
      else if keytype = ''h'' then ''[Thread] = ''
      else if keytype = ''g'' then ''[Function generator] = ''
      else if keytype = ''u'' then ''[Userdata] = ''
      else keyvalue @ '' = '')"

definition truthy :: "string option \<Rightarrow> bool" where
  \<comment> \<open>an attribute that is present and not the empty string\<close>
  "truthy a = (case a of None \<Rightarrow> False | Some t \<Rightarrow> t \<noteq> [])"

fun objectTexts :: "XmlO list \<Rightarrow> string \<Rightarrow> string" where
  \<comment> \<open>the inner loop of the case \<open>x\<close>: what the objects with reference \<open>v\<close> append\<close>
  "objectTexts [] v = []"
| "objectTexts (obj # rest) v =
     (if o_ref obj = v
      then (if truthy (o_typeof obj) then ''undefined'' else ''Object'') @ objectTexts rest v
      else objectTexts rest v)"

definition valueText :: "XmlO list \<Rightarrow> XmlE \<Rightarrow> string" where
  "valueText refs el =
     (let elementtype = e_vt el in
      if elementtype = ''s'' then [CHR 0x22] @ e_v el @ [CHR 0x22]
      else if elementtype = ''a'' then ''Array [...]''
      else if elementtype = ''t'' then ''Table {...}''
      else if elementtype = ''r'' then ''REFERENCE''
      else if elementtype = ''x'' then
        (if isVariableEHandleLoop refs (Number (e_v el)) then ''Entity handle''
         else objectTexts refs (e_v el))
      else if elementtype = ''y'' then ''Class''
      else if elementtype = ''fn'' then ''Function''
      else if elementtype = ''h'' then ''Thread''
      else if elementtype = ''g'' then ''Function generator''
      else if elementtype = ''u'' then ''Userdata''
      else e_v el)"

definition elementText :: "XmlO list \<Rightarrow> string \<Rightarrow> XmlE \<Rightarrow> string" where
  \<comment> \<open>\<open>value\<close> of one element, as it is added to \<open>contents\<close>\<close>
  "elementText refs type el =
     (let value = e_v el;
          value = (if type = ''a'' then [] else value);
          value = (if type = ''t'' then keyText refs el else value)
      in value @ valueText refs el)"

record ShortState =
  isFirstElement :: bool
  contents :: string
  len :: nat
  parsedElementCount :: nat

fun shortElements :: "XmlO list \<Rightarrow> nat \<Rightarrow> string \<Rightarrow> XmlE list \<Rightarrow> ShortState \<Rightarrow> ShortState" where
  \<comment> \<open>the loop over the elements of one object\<close>
  "shortElements refs maxShort type [] st = st"
| "shortElements refs maxShort type (el # els) st =
     (if parsedElementCount st \<ge> maxShort then st\<lparr>contents := contents st @ '', ...''\<rparr>
      else
        (let value = elementText refs type el;
             st1 = (if isFirstElement st
                    then st\<lparr>contents := contents st @ value, isFirstElement := False\<rparr>
                    else st\<lparr>contents := contents st @ '', '' @ value\<rparr>)
         in shortElements refs maxShort type els
              (st1\<lparr>parsedElementCount := parsedElementCount st1 + 1\<rparr>)))"

fun shortObjects :: "XmlO list \<Rightarrow> nat \<Rightarrow> string \<Rightarrow> string \<Rightarrow> XmlO list \<Rightarrow> ShortState \<Rightarrow> ShortState" where
  \<comment> \<open>the loop over the objects: every object with the reference is rendered\<close>
  "shortObjects refs maxShort serverRef type [] st = st"
| "shortObjects refs maxShort serverRef type (obj # rest) st =
     (if o_ref obj \<noteq> serverRef then shortObjects refs maxShort serverRef type rest st
      else if o_e obj = [] then shortObjects refs maxShort serverRef type rest st
      else shortObjects refs maxShort serverRef type rest
             (shortElements refs maxShort type (o_e obj) (st\<lparr>len := length (o_e obj)\<rparr>)))"

fun vectorText :: "XmlE list \<Rightarrow> jsError + string" where
  \<comment> \<open>\<open>"Vector [" + e[0].v + ", " + e[1].v + ", " + e[2].v + "]"\<close>\<close>
  "vectorText (a # b # c # others) =
     Inr (''Vector ['' @ e_v a @ '', '' @ e_v b @ '', '' @ e_v c @ '']'')"
| "vectorText es = Inl TypeError"

fun objectTypeText :: "string \<Rightarrow> XmlO list \<Rightarrow> jsError + string" where
  \<comment> \<open>the last loop of the case \<open>x\<close>: the first object with the reference and a
      \<open>typeof\<close> attribute names the value\<close>
  "objectTypeText serverRef [] = Inr ''Object''"
| "objectTypeText serverRef (obj # rest) =
     (if o_ref obj \<noteq> serverRef then objectTypeText serverRef rest
      else
        (case o_typeof obj of
           None \<Rightarrow> objectTypeText serverRef rest
         | Some value \<Rightarrow>
             if value = [] then objectTypeText serverRef rest
             else if value = ''Vector'' then vectorText (o_e obj)
             else Inr value))"

definition getStructShortRepresentation :: "Session \<Rightarrow> string \<Rightarrow> string \<Rightarrow> jsError + string" where
  "getStructShortRepresentation s serverRef type =
     (let refs = currentParsedReferences s in
      if refs = [] then Inl TypeError
      else
        (let st = shortObjects refs (maxShortData s) serverRef type refs
                    \<lparr>isFirstElement = True, contents = [], len = 0, parsedElementCount = 0\<rparr>
         in if type = ''a''
            then Inr (''Array ('' @ toDecNat (len st) @ '') ['' @ contents st @ '']'')
            else if type = ''t''
            then Inr (''Table ('' @ toDecNat (len st) @ '') {'' @ contents st @ ''}'')
            else if type = ''r'' then Inr ''REFERENCE''
            else if type = ''x'' then
              (if isVariableEHandleLoop refs (Number serverRef) then Inr ''Entity handle''
               else objectTypeText serverRef refs)
            else if type = ''y'' then Inr ''Class''
            else if type = ''fn'' then Inr ''Function''
            else if type = ''h'' then Inr ''Thread''
            else if type = ''g'' then Inr ''Function generator''
            else if type = ''u'' then Inr ''Userdata''
            else Inr (''Structure ('' @ type @ '') {'' @ contents st @ ''}'')))"

definition variableToValue :: "Session \<Rightarrow> string \<Rightarrow> string \<Rightarrow> jsError + IBasicType" where
  "variableToValue s value char =
     (if char = ''i'' \<or> char = ''f'' then Inr (NumberOf value)
      else if char = ''b'' then Inr (Boolean (value = ''true''))
      else if char = ''s'' then Inr (Text value)
      else if char = ''a'' \<or> char = ''t'' \<or> char = ''r'' \<or> char = ''x'' \<or> char = ''y'' then
        (case getStructShortRepresentation s value char of
           Inl err \<Rightarrow> Inl err
         | Inr text \<Rightarrow> Inr (Text text))
      else if char = ''fn'' then Inr (Text ''function'')
      else if char = ''g'' then Inr (Text ''generator'')
      else if char = ''h'' then Inr (Text ''thread'')
      else if char = ''u'' then Inr (Text ''userdata'')
      else Inr (Text value))"

subsection \<open>parsing.ts: acknowledgements, calls, watches and locals\<close>

fun updateFirst :: "('a \<Rightarrow> bool) \<Rightarrow> ('a \<Rightarrow> 'a) \<Rightarrow> 'a list \<Rightarrow> 'a list" where
  \<comment> \<open>an assignment to a property of \<open>xs.find(p)\<close>: the object found is changed where it
      stands in the array\<close>
  "updateFirst p f [] = []"
| "updateFirst p f (x # xs) = (if p x then f x # xs else x # updateFirst p f xs)"

fun updateFirstBucket ::
    "('a \<Rightarrow> bool) \<Rightarrow> ('a \<Rightarrow> 'a) \<Rightarrow> ('k \<times> 'a list) list \<Rightarrow> ('k \<times> 'a list) list" where
  \<comment> \<open>the same for the object that \<open>arrayMapToArray(m).find(p)\<close> finds\<close>
  "updateFirstBucket p f [] = []"
| "updateFirstBucket p f ((key, xs) # rest) =
     (if list_ex p xs then (key, updateFirst p f xs) # rest
      else (key, xs) # updateFirstBucket p f rest)"

fun verifyLine :: "jsnum \<Rightarrow> IBreakpoint list \<Rightarrow> Session \<Rightarrow> IBreakpoint list \<times> Session" where
  \<comment> \<open>the breakpoint found at the line is verified and announced\<close>
  "verifyLine bpLine breakPointList s =
     (case find (\<lambda>breakpoint. Num (bp_line breakpoint) = bpLine) breakPointList of
        None \<Rightarrow> (breakPointList, s)
      | Some bp \<Rightarrow>
          (updateFirst (\<lambda>breakpoint. Num (bp_line breakpoint) = bpLine)
             (\<lambda>b. b\<lparr>bp_verified := True\<rparr>) breakPointList,
           sendEvent (BreakpointEvent ''changed'' (bp\<lparr>bp_verified := True\<rparr>)) s))"

fun verifyByBasename ::
    "string \<Rightarrow> jsnum \<Rightarrow> (string \<times> IBreakpoint list) list \<Rightarrow> Session \<Rightarrow>
       (string \<times> IBreakpoint list) list \<times> Session" where
  \<comment> \<open>the loop over the keys of \<open>_breakpoints\<close>\<close>
  "verifyByBasename relativeScriptPath bpLine [] s = ([], s)"
| "verifyByBasename relativeScriptPath bpLine ((key, breakPointList) # rest) s =
     (if basename key = relativeScriptPath then
        (let (breakPointList', s1) = verifyLine bpLine breakPointList s;
             (rest', s2) = verifyByBasename relativeScriptPath bpLine rest s1
         in ((key, breakPointList') # rest', s2))
      else
        (let (rest', s2) = verifyByBasename relativeScriptPath bpLine rest s
         in ((key, breakPointList) # rest', s2)))"

definition parseBreakpoint :: "Externals \<Rightarrow> Session \<Rightarrow> jsnum \<Rightarrow> string \<Rightarrow> Session" where
  "parseBreakpoint ext s bpLine bpFile =
     (let relativeScriptPath = getRelativeScriptPath ext bpFile in
      case map_of (breakpoints s) relativeScriptPath of
        Some breakPointList \<Rightarrow>
          (let (breakPointList', s1) = verifyLine bpLine breakPointList s
           in s1\<lparr>breakpoints := AList.update relativeScriptPath breakPointList' (breakpoints s1)\<rparr>)
      | None \<Rightarrow>
          (let (all', s1) = verifyByBasename relativeScriptPath bpLine (breakpoints s) s
           in s1\<lparr>breakpoints := all'\<rparr>))"

definition createSource :: "Externals \<Rightarrow> string \<Rightarrow> Source" where
  "createSource ext filePath =
     \<lparr>source_name = basename filePath, source_path = convertDebuggerPathToClient ext filePath,
      source_presentationHint = None\<rparr>"

definition newFrame :: "Session \<Rightarrow> XmlCall \<Rightarrow> string option \<Rightarrow> Source \<Rightarrow> StackFrame option \<times> Session" where
  \<comment> \<open>the end of \<open>parseCall\<close>: the frame takes the next \<open>stackFrameID\<close>\<close>
  "newFrame s call forceLineNumber src =
     (let line = (case forceLineNumber of
                    None \<Rightarrow> Number (call_line call)
                  | Some forced \<Rightarrow> Number forced)
      in (Some \<lparr>frame_id = stackFrameID s, frame_name = call_fnc call, frame_source = src,
                frame_line = line, frame_presentationHint = ''normal''\<rparr>,
          s\<lparr>stackFrameID := stackFrameID s + 1\<rparr>))"

definition resolveTopFile :: "Externals \<Rightarrow> Session \<Rightarrow> string \<Rightarrow> string option \<times> Session" where
  \<comment> \<open>the file of the first call: resolved with prompts unless one resolution is
      cached\<close>
  "resolveTopFile ext s source =
     (let ask =
            (let (file, s1) = resolveFileReference ext s source True True
             in case file of
                  SinglePath filePath \<Rightarrow>
                    (Some filePath,
                     s1\<lparr>resolvedFileReferences :=
                          AList.update source \<lparr>fullpath = filePath, count = 1\<rparr>
                            (resolvedFileReferences s1)\<rparr>)
                | CandidateList files \<Rightarrow> (None, s1)
                | Unresolved \<Rightarrow> (None, s1))
      in case map_of (resolvedFileReferences s) source of
           None \<Rightarrow> ask
         | Some fileRefData \<Rightarrow> if count fileRefData > 1 then ask else (Some (fullpath fileRefData), s))"

definition resolveLowerFile :: "Externals \<Rightarrow> Session \<Rightarrow> string \<Rightarrow> string option \<times> Session" where
  \<comment> \<open>the file of a call lower on the stack: the first candidate, without asking\<close>
  "resolveLowerFile ext s source =
     (let (file, s1) = resolveFileReference ext s source False False
      in case file of
           CandidateList files \<Rightarrow>
             ((case files of [] \<Rightarrow> None | filePath # others \<Rightarrow> Some filePath), s1)
         | SinglePath filePath \<Rightarrow>
             (Some filePath,
              s1\<lparr>resolvedFileReferences :=
                   AList.update source \<lparr>fullpath = filePath, count = 1\<rparr>
                     (resolvedFileReferences s1)\<rparr>)
         | Unresolved \<Rightarrow> (None, s1))"

definition parseCall ::
    "Externals \<Rightarrow> Session \<Rightarrow> XmlCall \<Rightarrow> string option \<Rightarrow> string option \<Rightarrow>
       StackFrame option \<times> Session" where
  "parseCall ext s call forceLineNumber correctedSource =
     (let firstCall = (stackFrameID s = 0);
          source = (case correctedSource of
                      None \<Rightarrow> call_src call
                    | Some corrected \<Rightarrow> if corrected = [] then call_src call else corrected)
      in if endsWith source ''.nut'' then
           (let (filePath, s1) =
                  (if firstCall then resolveTopFile ext s source
                   else resolveLowerFile ext s source)
            in case filePath of
                 None \<Rightarrow> (None, s1)
               | Some file \<Rightarrow> newFrame s1 call forceLineNumber (createSource ext file))
         else
           (let src = (createSource ext source)\<lparr>source_presentationHint := Some ''deemphasize''\<rparr>;
                s1 = (if firstCall then sendEvent FileNotRealMessage s else s)
            in newFrame s1 call forceLineNumber src))"

definition isEntityDataNumber :: "jsnum \<Rightarrow> bool" where
  \<comment> \<open>\<open>watchId & 0x100000\<close> is truthy\<close>
  "isEntityDataNumber n = (case n of NaN \<Rightarrow> False | Num i \<Rightarrow> hasReservedBit i)"

definition updateWatch :: "jsnum \<Rightarrow> (DebuggerWatch \<Rightarrow> DebuggerWatch) \<Rightarrow> Session \<Rightarrow> Session" where
  \<comment> \<open>an assignment to a property of the \<open>debuggerWatch\<close> that \<open>parseWatch\<close> has found\<close>
  "updateWatch watchId f s =
     (if \<not> isEntityDataNumber watchId
      then s\<lparr>watches := updateFirst (\<lambda>e. Num (watch_id e) = watchId) f (watches s)\<rparr>
      else s\<lparr>entityDataWatches :=
               updateFirstBucket (\<lambda>e. Num (watch_id e) = watchId) f (entityDataWatches s)\<rparr>)"

definition parseWatch :: "Externals \<Rightarrow> Session \<Rightarrow> XmlW \<Rightarrow> nat \<Rightarrow> (jsError + unit) \<times> Session" where
  "parseWatch ext s watch currentFrame =
     (let watchId = Number (w_id watch);
          status = w_status watch;
          debuggerWatch =
            (if \<not> isEntityDataNumber watchId
             then find (\<lambda>e. Num (watch_id e) = watchId) (watches s)
             else find (\<lambda>e. Num (watch_id e) = watchId) (arrayMapToArray (entityDataWatches s)))
      in case debuggerWatch of
           None \<Rightarrow> (Inr (), s)
         | Some found \<Rightarrow>
             (let s1 = updateWatch watchId (\<lambda>w. w\<lparr>watch_frameId := currentFrame\<rparr>) s in
              if status = ''ok'' then
                (let value = w_val watch;
                     shorttype = w_type watch;
                     s2 = updateWatch watchId
                            (\<lambda>w. w\<lparr>watch_status := jsAssign (watch_status w) currentFrame ok\<rparr>) s1
                 in case variableToValue s2 value shorttype of
                      Inl err \<Rightarrow> (Inl err, s2)
                    | Inr shown \<Rightarrow>
                        (let s3 = updateWatch watchId
                                    (\<lambda>w. w\<lparr>watch_values := jsAssign (watch_values w) currentFrame shown,
                                            watch_type := typeStringFromChar shorttype,
                                            watch_isValid := True\<rparr>) s2
                         in if isComplexDataType shorttype then
                              (let s4 = updateWatch watchId
                                          (\<lambda>w. w\<lparr>watch_variableReference := plusOne (Number value)\<rparr>)
                                          s3
                               in (Inr (),
                                   if watchId = Num 0 then s4\<lparr>rootTableReference := Number value\<rparr>
                                   else s4))
                            else (Inr (), s3)))
              else if status = ''error'' then
                (Inr (),
                 updateWatch watchId
                   (\<lambda>w. w\<lparr>watch_values := jsAssign (watch_values w) currentFrame (Text ''error''),
                           watch_status := jsAssign (watch_status w) currentFrame error\<rparr>) s1)
              else (Inr (), s1)))"

definition pushChild :: "TreeNode option \<Rightarrow> TreeNode \<Rightarrow> TreeNode" where
  \<comment> \<open>\<open>if(newNode) tree.children.push(newNode)\<close>\<close>
  "pushChild newNode tree =
     (case newNode of
        None \<Rightarrow> tree
      | Some n \<Rightarrow> TreeNode (node_element tree) (node_children tree @ [n]) (node_depth tree))"

definition atLeastZero :: "jsnum \<Rightarrow> bool" where
  \<comment> \<open>\<open>n >= 0\<close>\<close>
  "atLeastZero n = (case n of NaN \<Rightarrow> False | Num i \<Rightarrow> 0 \<le> i)"

definition complexVariable ::
    "Session \<Rightarrow> string \<Rightarrow> string \<Rightarrow> string \<Rightarrow> DebuggerVariable \<Rightarrow> DebuggerVariable" where
  \<comment> \<open>what \<open>parseLocalVariable\<close> sets on a variable of a complex type\<close>
  "complexVariable s name shorttype originalvalue variable =
     (let variable = (if shorttype = ''a'' then variable\<lparr>var_isIndexed := True\<rparr> else variable);
          variable = (if name = ''this'' then variable\<lparr>var_hidden := True\<rparr> else variable);
          variable = (if shorttype = ''native function'' \<and> hideNativeFunctions s
                      then variable\<lparr>var_hidden := True\<rparr>
                      else if shorttype = ''y'' \<and> hideClasses s
                      then variable\<lparr>var_hidden := True\<rparr>
                      else variable)
      in variable\<lparr>var_variableReference := plusOne (Number originalvalue)\<rparr>)"

definition growReferenceTree ::
    "Session \<Rightarrow> string \<Rightarrow> string \<Rightarrow> string \<Rightarrow> (jsError + unit) \<times> Session" where
  \<comment> \<open>the two calls of \<open>buildReferenceTree\<close> in \<open>parseLocalVariable\<close>: for the variable,
      and for the root table when it is displayed and known\<close>
  "growReferenceTree s name shorttype originalvalue =
     (case buildReferenceTreeRun (currentParsedReferences s) (Number originalvalue) name
             shorttype 0 (visitedTreeElements s) of
        Threw searched \<Rightarrow> (Inl TypeError, s\<lparr>visitedTreeElements := searched\<rparr>)
      | Returned newNode searched \<Rightarrow>
          (let s1 = s\<lparr>visitedTreeElements := searched,
                       referenceTree := pushChild newNode (referenceTree s)\<rparr>
           in if displayRootTable (config s1) \<and> atLeastZero (rootTableReference s1) then
                (case buildReferenceTreeRun (currentParsedReferences s1) (rootTableReference s1)
                        ''@ROOTTABLE@'' ''t'' 0 (visitedTreeElements s1) of
                   Threw searched' \<Rightarrow> (Inl TypeError, s1\<lparr>visitedTreeElements := searched'\<rparr>)
                 | Returned rootNode searched' \<Rightarrow>
                     (Inr (),
                      s1\<lparr>visitedTreeElements := searched',
                         referenceTree := pushChild rootNode (referenceTree s1)\<rparr>))
              else (Inr (), s1)))"

definition parseLocalVariable ::
    "Session \<Rightarrow> XmlL \<Rightarrow> nat \<Rightarrow> (jsError + DebuggerVariable) \<times> Session" where
  "parseLocalVariable s local currentFrame =
     (let name = l_name local; shorttype = l_type local; originalvalue = l_val local in
      case variableToValue s originalvalue shorttype of
        Inl err \<Rightarrow> (Inl err, s)
      | Inr value \<Rightarrow>
          (let variable = (new_DebuggerVariable name value shorttype)
                            \<lparr>var_variablePath := name, var_frameId := currentFrame\<rparr>
           in if isComplexDataType shorttype then
                (case growReferenceTree s name shorttype originalvalue of
                   (Inl err, s1) \<Rightarrow> (Inl err, s1)
                 | (Inr u, s1) \<Rightarrow>
                     (Inr (complexVariable s name shorttype originalvalue variable), s1))
              else (Inr variable, s)))"

text \<open>
  At its end \<open>parseLocalVariable\<close> asks whether a variable of type \<open>x\<close> is an entity
  handle and does nothing with the answer (the branches are commented out), so the
  model leaves the question out. \<open>parseWatch\<close> returns a pair that the caller collects
  in a local array it never reads; the model returns nothing.
\<close>

fun parseWatches :: "Externals \<Rightarrow> Session \<Rightarrow> XmlW list \<Rightarrow> nat \<Rightarrow> (jsError + unit) \<times> Session" where
  \<comment> \<open>\<open>for (let watch of call['w'])\<close>\<close>
  "parseWatches ext s [] currentFrame = (Inr (), s)"
| "parseWatches ext s (watch # ws) currentFrame =
     (case parseWatch ext s watch currentFrame of
        (Inl err, s1) \<Rightarrow> (Inl err, s1)
      | (Inr u, s1) \<Rightarrow> parseWatches ext s1 ws currentFrame)"

definition pushLocal :: "DebuggerVariable \<Rightarrow> Session \<Rightarrow> Session" where
  \<comment> \<open>\<open>localVariables.get(0).push(variable)\<close>, the bucket created when missing\<close>
  "pushLocal variable s =
     s\<lparr>localVariables :=
          AList.update (Num 0)
            ((case map_of (localVariables s) (Num 0) of None \<Rightarrow> [] | Some vs \<Rightarrow> vs) @ [variable])
            (localVariables s)\<rparr>"

fun parseLocals :: "Session \<Rightarrow> XmlL list \<Rightarrow> nat \<Rightarrow> (jsError + unit) \<times> Session" where
  \<comment> \<open>\<open>for (let local of call['l'])\<close>\<close>
  "parseLocals s [] currentFrame = (Inr (), s)"
| "parseLocals s (local # ls) currentFrame =
     (case parseLocalVariable s local currentFrame of
        (Inl err, s1) \<Rightarrow> (Inl err, s1)
      | (Inr variable, s1) \<Rightarrow> parseLocals (pushLocal variable s1) ls currentFrame)"

text \<open>
  The loop over the calls of a step-stop or refresh frame. For a step-stop frame
  (\<open>brk\<close> holds the attributes of \<open>break\<close>) every call is first turned into a stack frame
  and \<open>stacktraces\<close> is set to the frames collected so far; for a refresh frame (\<open>brk\<close>
  is \<open>None\<close>, the \<open>isUpdateData\<close> of the source) that part is skipped. The source awaits
  \<open>parseCall\<close>, which awaits \<open>resolveFileReference\<close>; the model runs the awaited call in place.
  A refresh frame reaches no \<open>await\<close>.
\<close>

fun parseCalls ::
    "Externals \<Rightarrow> XmlBreak option \<Rightarrow> XmlCall list \<Rightarrow> nat \<Rightarrow> StackFrame list \<Rightarrow> Session \<Rightarrow>
       (jsError + unit) \<times> Session" where
  "parseCalls ext brk [] currentFrame stackFrames s = (Inr (), s)"
| "parseCalls ext brk (call # calls) currentFrame stackFrames s =
     (let (stackFrames1, s1) =
            (case brk of
               None \<Rightarrow> (stackFrames, s)
             | Some attributes \<Rightarrow>
                 (let (frame, s') =
                        (if stackFrameID s = 0
                         then parseCall ext s call (Some (break_line attributes))
                                (Some (break_src attributes))
                         else parseCall ext s call None None);
                      frames = (case frame of None \<Rightarrow> stackFrames | Some f \<Rightarrow> stackFrames @ [f])
                  in (frames, s'\<lparr>stacktraces := frames\<rparr>)))
      in case parseWatches ext s1 (call_w call) currentFrame of
           (Inl err, s2) \<Rightarrow> (Inl err, s2)
         | (Inr u, s2) \<Rightarrow>
             (case parseLocals s2 (call_l call) currentFrame of
                (Inl err, s3) \<Rightarrow> (Inl err, s3)
              | (Inr u', s3) \<Rightarrow> parseCalls ext brk calls (currentFrame + 1) stackFrames1 s3))"

fun traceString :: "bool \<Rightarrow> StackFrame list \<Rightarrow> string" where
  "traceString isFristTrace [] = []"
| "traceString isFristTrace (trace # traces) =
     frame_name trace @ [CHR 0x09] @ ''('' @ source_name (frame_source trace) @ '' @ line '' @
     String (frame_line trace) @ '')'' @ (if isFristTrace then '' <- HERE'' else []) @ [LF] @
     traceString False traces"

definition stoppedOnError :: "Externals \<Rightarrow> XmlBreak \<Rightarrow> jsnum \<Rightarrow> Session \<Rightarrow> Session" where
  \<comment> \<open>the branch \<open>reason === 'error'\<close>; reading \<open>stacktraces[0].source\<close> throws when no
      frame was parsed, with the state already \<open>errored\<close>\<close>
  "stoppedOnError ext attributes currentLineBreak s =
     (let exception = decode ext (break_error attributes);
          s1 = s\<lparr>debuggerState := errored\<rparr>
      in case stacktraces s1 of
           [] \<Rightarrow> s1
         | topFrame # below \<Rightarrow>
             (let path = source_path (frame_source topFrame);
                  description = ''An error has occured in '' @
                    (if path = [] then ''<unknown>'' else path) @ '' at line '' @
                    String currentLineBreak @ '': '' @ exception @ [LF];
                  s2 = sendEvent (OutputEvent description ''stderr'') s1;
                  s3 = s2\<lparr>exceptionInfo :=
                            \<lparr>description = exception, details_message = ''STACK TRACE:'',
                             details_stackTrace = traceString True (stacktraces s2)\<rparr>\<rparr>
              in sendEvent (StoppedEvent ''exception'' (Some exception)) s3))"

definition parseStep :: "Externals \<Rightarrow> Session \<Rightarrow> XmlBreak option \<Rightarrow> XmlO list \<Rightarrow> XmlCall list \<Rightarrow> Session" where
  \<comment> \<open>the callback of \<open>parseString\<close> for a \<open>break\<close> without description or an \<open>update\<close>;
      what it throws rejects the promise of the callback and reaches nobody\<close>
  "parseStep ext s brk objs calls =
     (let s1 = s\<lparr>currentParsedReferences := objs, localVariables := [(Num 0, [])],
                  rootVariables := [],
                  referenceTree := resetRootReferenceTree (referenceTree s),
                  startingFrameID := - 1, virtualReference := 10000, currentFrameID := 0\<rparr>
      in if calls = [] then s1
         else
           (case parseCalls ext brk calls 0 [] s1 of
              (Inl err, s2) \<Rightarrow> s2
            | (Inr u, s2) \<Rightarrow>
                (case brk of
                   None \<Rightarrow> sendEvent (InvalidatedEvent [''variables'']) s2
                 | Some attributes \<Rightarrow>
                     (let reason = break_type attributes in
                      if reason = ''breakpoint''
                      then (sendEvent (StoppedEvent reason None) s2)\<lparr>debuggerState := stopped\<rparr>
                      else if reason = ''error''
                      then stoppedOnError ext attributes (Number (break_line attributes)) s2
                      else (sendEvent (StoppedEvent reason None) s2)\<lparr>debuggerState := stopped\<rparr>))))"

subsection \<open>vscriptDebug.ts: resetting, pruning watches, receiving\<close>

definition resetState :: "Session \<Rightarrow> Session" where
  "resetState s =
     (let s1 = s\<lparr>bufferedData := [], currentFrameID := 0, startingFrameID := - 1,
                  resolvedFileReferences := [], variableHandles := [],
                  virtualReference := 10000, visitedTreeElements := []\<rparr>
      in if \<not> rememberFileReferencesDuringSession (config s1) then resetFileReferences s1
         else s1)"

lemma removeWatch_length: "length (watches (removeWatch s i a)) \<le> length (watches s)"
proof -
  have "length (spliceFirst p xs) \<le> length xs" for p and xs :: "DebuggerWatch list"
    by (induction xs) auto
  then show ?thesis
    by (auto simp: removeWatch_def socketWrite_def split: option.splits)
qed

text \<open>
  \<open>cleanupUnusedWatches\<close> iterates over \<open>watches\<close> while \<open>removeWatch\<close> splices it: the
  iterator of a JavaScript array is an index, so the loop of the model runs on the index.
\<close>

function cleanupLoop :: "Session \<Rightarrow> nat \<Rightarrow> Session" where
  "cleanupLoop s idx =
     (if idx < length (watches s) then
        (let watch = watches s ! idx in
         if watch_id watch = 0 then cleanupLoop s (idx + 1)
         else if watch_id watch \<notin> set (watchesThisStep s)
         then cleanupLoop (removeWatch s (watch_id watch) True) (idx + 1)
         else cleanupLoop s (idx + 1))
      else s)"
  by pat_completeness auto
termination
proof (relation "measure (\<lambda>(s, idx). length (watches s) - idx)")
  show "wf (measure (\<lambda>(s, idx). length (watches s) - idx))" by simp
next
  fix s :: Session and idx :: nat and x :: DebuggerWatch
  assume "idx < length (watches s)"
  then show "((s, idx + 1), s, idx) \<in> measure (\<lambda>(s, idx). length (watches s) - idx)"
    by simp
next
  fix s :: Session and idx :: nat and x :: DebuggerWatch
  assume less: "idx < length (watches s)"
  have "length (watches (removeWatch s (watch_id x) True)) \<le> length (watches s)"
    by (rule removeWatch_length)
  with less
  show "((removeWatch s (watch_id x) True, idx + 1), s, idx)
      \<in> measure (\<lambda>(s, idx). length (watches s) - idx)"
    by simp
next
  fix s :: Session and idx :: nat and x :: DebuggerWatch
  assume "idx < length (watches s)"
  then show "((s, idx + 1), s, idx) \<in> measure (\<lambda>(s, idx). length (watches s) - idx)"
    by simp
qed

declare cleanupLoop.simps [simp del]

definition cleanupUnusedWatches :: "Session \<Rightarrow> Session" where
  "cleanupUnusedWatches s = (cleanupLoop s 0)\<lparr>watchesThisStep := []\<rparr>"

definition resumedFrame :: string where
  \<comment> \<open>the literal \<open>"<resumed/>\r\n"\<close>\<close>
  "resumedFrame = ''<resumed/>'' @ CRLF"

definition parseReceivedData :: "Externals \<Rightarrow> Session \<Rightarrow> string \<Rightarrow> Session" where
  "parseReceivedData ext s receivedData =
     (let s0 = s\<lparr>resumeTimer := False\<rparr> in
      if receivedData = resumedFrame then
        (let s1 = resetState (s0\<lparr>debuggerState := runnning\<rparr>);
             s2 = (if scriptVersion s1 = squirrel3 then cleanupUnusedWatches s1 else s1)
         in sendEvent ContinuedEvent s2)
      else
        (let s1 = s0\<lparr>watchesThisStep := []\<rparr> in
         if resumeOnExceptions s1 \<and> debuggerState s1 \<noteq> stopped \<and>
            includesFrom (slice0 receivedData 120) ''error='' 25
         then resetFileReferences (resumeExecution s1)
         else
           (case parseString ext receivedData of
              Inl message \<Rightarrow>
                resumeExecution
                  (sendEvent
                     (OutputEvent
                        (''An error has occured while parsing data from the server: '' @ message)
                        ''stderr'') s1)
            | Inr (AddBreakpoint line src) \<Rightarrow> parseBreakpoint ext s1 (Number line) src
            | Inr (Break attributes objs calls) \<Rightarrow>
                if truthy (break_desc attributes) then s1
                else parseStep ext s1 (Some attributes) objs calls
            | Inr (Update objs calls) \<Rightarrow> parseStep ext s1 None objs calls
            | Inr (OtherRoot tag) \<Rightarrow> s1)))"

text \<open>
  \<open>onRecieveData\<close>. Nothing that \<open>parseReceivedData\<close> does throws into the \<open>try\<close> block
  (the callback of \<open>parseString\<close> is an async function), so the \<open>catch\<close> is reached only
  when \<open>xmlFormat\<close> throws, which it is asked to do only with debug logging on. The
  status bar item that shows the progress is not part of the session.
\<close>

definition logPackage :: "Externals \<Rightarrow> Session \<Rightarrow> (jsError + unit) \<times> Session" where
  \<comment> \<open>with debug logging on, the buffer is formatted and shown before a package is
      decoded\<close>
  "logPackage ext s =
     (if enableDebugLogging s then
        (case xmlFormat ext (bufferedData s) of
           None \<Rightarrow> (Inl LibraryError, s)
         | Some formatted \<Rightarrow>
             (Inr (),
              sendEvent
                (OutputEvent (''Received XML from game:'' @ [LF] @ formatted @ [LF]) ''console'')
                s))
      else (Inr (), s))"

fun decodePackages :: "Externals \<Rightarrow> Session \<Rightarrow> string list \<Rightarrow> (jsError + unit) \<times> Session" where
  \<comment> \<open>\<open>for(let dataPackage of this._bufferedData.split("\r\n"))\<close>\<close>
  "decodePackages ext s [] = (Inr (), s)"
| "decodePackages ext s (dataPackage # rest) =
     (if length dataPackage > 0 then
        (case logPackage ext s of
           (Inl err, s1) \<Rightarrow> (Inl err, s1)
         | (Inr u, s1) \<Rightarrow> decodePackages ext (parseReceivedData ext s1 dataPackage) rest)
      else decodePackages ext s rest)"

definition onRecieveData :: "Externals \<Rightarrow> Session \<Rightarrow> string \<Rightarrow> Session" where
  "onRecieveData ext s data =
     (let s1 = s\<lparr>bufferedData := bufferedData s @ data\<rparr> in
      if \<not> endsWith (bufferedData s1) CRLF then s1
      else
        (let s2 = s1\<lparr>stackFrameID := 0\<rparr>;
             s3 = (case decodePackages ext s2 (split (bufferedData s2)) of
                     (Inr u, s') \<Rightarrow> s'
                   | (Inl err, s') \<Rightarrow>
                       sendEvent (StoppedEvent ''step'' (Some ''Stopped due to extension error''))
                         (sendEvent
                            (ErrorMessage
                               (''An error has occured while receiving and parsing data from '' @
                                ''the debug server on the current step, information cannot be '' @
                                ''displayed.'' @ [LF])) s'))
         in s3\<lparr>bufferedData := [], usedVariableReferences := [Num 0],
                visitedTreeElements := []\<rparr>))"

subsection \<open>vscriptDebug.ts: breakpoints\<close>

definition rbCommand :: "string \<Rightarrow> int \<Rightarrow> string" where
  \<comment> \<open>\<open>`rb 0x${line.toString(16)}:${src}\n`\<close>\<close>
  "rbCommand src line = ''rb 0x'' @ toString16 line @ '':'' @ forwardSlashes src @ [LF]"

definition abCommand :: "string \<Rightarrow> int \<Rightarrow> string" where
  \<comment> \<open>\<open>`ab 0x${line.toString(16)}:${src}\n`\<close>\<close>
  "abCommand src line = ''ab 0x'' @ toString16 line @ '':'' @ forwardSlashes src @ [LF]"

definition sendRemoveBreakpoint :: "Session \<Rightarrow> string \<Rightarrow> int \<Rightarrow> Session" where
  "sendRemoveBreakpoint s src line =
     socketWrite (rbCommand src line)
       (debugPrint (''Sendind message: '' @ rbCommand src line) s)"

definition sendAddBreakpoint :: "Session \<Rightarrow> string \<Rightarrow> int \<Rightarrow> Session" where
  "sendAddBreakpoint s src line =
     socketWrite (abCommand src line)
       (debugPrint (''Sendind message: '' @ abCommand src line) s)"

definition newArray :: "string \<Rightarrow> int \<Rightarrow> Session \<Rightarrow> ArrayKey \<times> Session" where
  \<comment> \<open>the array literal \<open>[path.basename(bpPath), bp.line]\<close>: a new object\<close>
  "newArray name line s = ((nextObject s, name, line), s\<lparr>nextObject := nextObject s + 1\<rparr>)"

definition removeOne :: "string \<Rightarrow> IBreakpoint \<Rightarrow> Session \<Rightarrow> Session" where
  \<comment> \<open>the body of the loop over \<open>bpsForRemoval\<close>\<close>
  "removeOne bpPath bp s =
     (let (key, s1) = newArray (basename bpPath) (bp_line bp) s;
          refCount = (case map_of (breakpointsRefCount s1) key of None \<Rightarrow> 0 | Some n \<Rightarrow> n);
          refCount = refCount - 1
      in if refCount \<le> 0 then
           (let s2 = sendRemoveBreakpoint s1 bpPath (bp_line bp);
                (key', s3) = newArray (basename bpPath) (bp_line bp) s2
            in s3\<lparr>breakpointsRefCount := AList.delete key' (breakpointsRefCount s3)\<rparr>)
         else
           (let (key', s2) = newArray (basename bpPath) (bp_line bp) s1
            in s2\<lparr>breakpointsRefCount := AList.update key' refCount (breakpointsRefCount s2)\<rparr>))"

fun joinWith :: "string \<Rightarrow> string list \<Rightarrow> string" where
  \<comment> \<open>\<open>xs.join(sep)\<close>\<close>
  "joinWith sep [] = []"
| "joinWith sep [x] = x"
| "joinWith sep (x # y # ys) = x @ sep @ joinWith sep (y # ys)"

definition sameNameWarning :: "string list \<Rightarrow> string" where
  "sameNameWarning files =
     ''Adding breakpoint to this file will cause it to be added to the following files of '' @
     ''the same name regardless of the path due to a bug in the engine. [[ '' @
     joinWith ''; '' files @
     '' ]] This shouldn't be an issue if you're sure that both of these scripts will not be '' @
     ''ran in the same sesion.''"

definition notifyOnce :: "Externals \<Rightarrow> string \<Rightarrow> Session \<Rightarrow> Session" where
  \<comment> \<open>the first breakpoint of a file name: the files of that name are looked up, and a
      warning is shown when there are several\<close>
  "notifyOnce ext bpPath s =
     (if basename bpPath \<in> set (notifiedFileBreakpoints s) then s
      else
        (let s1 = s\<lparr>notifiedFileBreakpoints := notifiedFileBreakpoints s @ [basename bpPath]\<rparr>;
             (files, s2) = resolveFileReference ext s1 (basename bpPath) False False
         in case files of
              CandidateList files \<Rightarrow>
                (let files = map (getRelativeScriptPath ext) files in
                 if length files > 1 then sendEvent (WarningMessage (sameNameWarning files)) s2
                 else s2)
            | SinglePath file \<Rightarrow> s2
            | Unresolved \<Rightarrow> s2))"

definition includeOne :: "Externals \<Rightarrow> string \<Rightarrow> IBreakpoint \<Rightarrow> Session \<Rightarrow> Session" where
  \<comment> \<open>the body of the loop over \<open>bpsForInclusion\<close>\<close>
  "includeOne ext bpPath bp s =
     (let s1 = sendAddBreakpoint s bpPath (bp_line bp);
          s2 = notifyOnce ext bpPath s1;
          (key, s3) = newArray (basename bpPath) (bp_line bp) s2;
          refCount = (case map_of (breakpointsRefCount s3) key of None \<Rightarrow> 0 | Some n \<Rightarrow> n);
          refCount = refCount + 1;
          (key', s4) = newArray (basename bpPath) (bp_line bp) s3
      in s4\<lparr>breakpointsRefCount := AList.update key' refCount (breakpointsRefCount s4)\<rparr>)"

definition bucket :: "(string \<times> IBreakpoint list) list \<Rightarrow> string \<Rightarrow> IBreakpoint list" where
  \<comment> \<open>\<open>this._breakpoints.get(bpPath) || []\<close>\<close>
  "bucket m bpPath = (case map_of m bpPath of None \<Rightarrow> [] | Some bps \<Rightarrow> bps)"

fun actualBreakpoints ::
    "string \<Rightarrow> IBreakpoint list \<Rightarrow> int list \<Rightarrow> Session \<Rightarrow> IBreakpoint list \<times> Session" where
  \<comment> \<open>\<open>breakpoints.map(...)\<close>: a requested line keeps the verification of the previous
      breakpoint at that line, takes the next id and joins the bucket of the path\<close>
  "actualBreakpoints bpPath originalBps [] s = ([], s)"
| "actualBreakpoints bpPath originalBps (line # lines) s =
     (let isVerified = (case find (\<lambda>searchedBp. bp_line searchedBp = line) originalBps of
                          None \<Rightarrow> True
                        | Some existingBp \<Rightarrow> bp_verified existingBp);
          bp = \<lparr>bp_id = breakpointID s, bp_line = line, bp_verified = isVerified\<rparr>;
          s1 = s\<lparr>breakpointID := breakpointID s + 1,
                  breakpoints := AList.update bpPath (bucket (breakpoints s) bpPath @ [bp])
                                   (breakpoints s)\<rparr>;
          (dapBps, s2) = actualBreakpoints bpPath originalBps lines s1
      in (bp # dapBps, s2))"

definition setBreakPointsRequest ::
    "Externals \<Rightarrow> Session \<Rightarrow> string option \<Rightarrow> int list \<Rightarrow> IBreakpoint list \<times> Session" where
  \<comment> \<open>the arguments are \<open>args.source.path\<close> and the lines of \<open>args.breakpoints\<close>; the
      result is the body of the response. A session that is not connected yet runs the
      body once the socket has connected.\<close>
  "setBreakPointsRequest ext s sourcePath lines =
     (if \<not> truthy sourcePath then ([], s)
      else
        (let bpPath = forwardSlashes
                        (getRelativeScriptPath ext (case sourcePath of None \<Rightarrow> [] | Some p \<Rightarrow> p));
             originalBps = bucket (breakpoints s) bpPath;
             s1 = s\<lparr>breakpoints := AList.update bpPath [] (breakpoints s)\<rparr>;
             (dapBps, s2) = actualBreakpoints bpPath originalBps lines s1;
             bpsForRemoval =
               filter (\<lambda>element. \<not> list_ex (\<lambda>inner. bp_line inner = bp_line element)
                                    (bucket (breakpoints s2) bpPath)) originalBps;
             bpsForInclusion =
               filter (\<lambda>element. \<not> list_ex (\<lambda>inner. bp_line inner = bp_line element) originalBps)
                 (bucket (breakpoints s2) bpPath);
             s3 = fold (removeOne bpPath) bpsForRemoval s2;
             s4 = fold (includeOne ext bpPath) bpsForInclusion s3
         in (dapBps, s4)))"

text \<open>
  The reference count of the data model, in the words of the spec: how many logical
  (path, line) breakpoints currently map to a (basename, line) combination.
\<close>

definition wireRefCount :: "(string \<times> IBreakpoint list) list \<Rightarrow> string \<Rightarrow> int \<Rightarrow> nat" where
  "wireRefCount m name line =
     length (filter (\<lambda>(bpPath, bps). basename bpPath = name \<and> list_ex (\<lambda>bp. bp_line bp = line) bps)
               m)"

subsection \<open>Measures for the recursion of the reference tree\<close>

definition allElements :: "XmlO list \<Rightarrow> XmlE list" where
  "allElements refs = concat (map o_e refs)"

definition candidates :: "XmlO list \<Rightarrow> jsnum set" where
  \<comment> \<open>the references that the elements of the objects can lead to\<close>
  "candidates refs = (\<lambda>el. Number (e_v el)) ` set (allElements refs)"

fun searchedOf :: "'a outcome \<Rightarrow> jsnum list" where
  "searchedOf (Threw searched) = searched"
| "searchedOf (Returned x searched) = searched"

subsection \<open>The entries of a preview\<close>


subsection \<open>Observations on the events and the locals\<close>

definition kept :: "Session \<Rightarrow> Session \<Rightarrow> bool" where
  \<comment> \<open>the call stack, the events and the logging switch are what they were\<close>
  "kept s s' =
     (stacktraces s' = stacktraces s \<and> events s' = events s \<and>
      enableDebugLogging s' = enableDebugLogging s)"


fun isStoppedEvent :: "Event \<Rightarrow> bool" where
  "isStoppedEvent (StoppedEvent reason text) = True"
| "isStoppedEvent ev = False"

subsection \<open>Sessions for the examples\<close>

definition twoWatches :: Session where
  "twoWatches =
     new_VScriptDebugSession\<lparr>watches := [new_DebuggerWatch 1 ''a'', new_DebuggerWatch 2 ''b'']\<rparr>"

definition frameAt :: "nat \<Rightarrow> string \<Rightarrow> StackFrame" where
  "frameAt n f =
     \<lparr>frame_id = n, frame_name = f,
      frame_source = \<lparr>source_name = ''main.nut'', source_path = ''main.nut'',
                      source_presentationHint = None\<rparr>,
      frame_line = Num 5, frame_presentationHint = ''normal''\<rparr>"

definition twoFrames :: Session where
  "twoFrames =
     new_VScriptDebugSession\<lparr>stacktraces := [frameAt 0 ''inner'', frameAt 1 ''main''],
       debuggerState := stopped\<rparr>"

definition oneFrame :: Session where
  "oneFrame =
     new_VScriptDebugSession\<lparr>stacktraces := [frameAt 0 ''main''], debuggerState := stopped\<rparr>"


definition sampleExternals :: Externals where
  \<comment> \<open>externals for the examples: every frame has an unknown root, the workspace has no
      folder, no file is found, and the user dismisses every prompt\<close>
  "sampleExternals =
     \<lparr>parseString = (\<lambda>text. Inr (OtherRoot text)),
      xmlFormat = (\<lambda>text. Some text),
      decode = (\<lambda>t. case t of None \<Rightarrow> [] | Some text \<Rightarrow> text),
      convertDebuggerPathToClient = (\<lambda>p. p),
      pathRelative = (\<lambda>origin target. drop (length origin + 1) target),
      pathJoin = (\<lambda>directory name. directory @ ''/'' @ name),
      getScriptRootDirectories = [],
      findFileRecusive = (\<lambda>directory name. None),
      anyFileExists = (\<lambda>files. False),
      showQuickPick = (\<lambda>files. NoChoice),
      showMissingFile = (\<lambda>name. NoButton)\<rparr>"

definition afterFirstPath :: Session where
  \<comment> \<open>line 5 of \<open>a/x.nut\<close> has a breakpoint\<close>
  "afterFirstPath =
     snd (setBreakPointsRequest sampleExternals new_VScriptDebugSession (Some ''a/x.nut'') [5])"

definition afterSecondPath :: Session where
  \<comment> \<open>and then line 5 of \<open>b/x.nut\<close> as well\<close>
  "afterSecondPath =
     snd (setBreakPointsRequest sampleExternals afterFirstPath (Some ''b/x.nut'') [5])"

definition selfObject :: XmlO where
  \<comment> \<open>an object with reference 5 whose one element is the object itself\<close>
  "selfObject =
     \<lparr>o_ref = ''5'', o_type = ''x'', o_typeof = None,
      o_e = [\<lparr>e_vt = ''x'', e_v = ''5'', e_kv = ''self'', e_kt = ''s''\<rparr>]\<rparr>"







definition stoppedSession :: Session where
  \<comment> \<open>stopped in \<open>inner\<close>, called from \<open>main\<close>, with the watch \<open>a\<close> of id 1\<close>
  "stoppedSession = twoFrames\<lparr>watches := [new_DebuggerWatch 1 ''a'']\<rparr>"

definition errorBreak :: Frame where
  \<comment> \<open>a step-stop frame for the error \<open>boom\<close> at line 3 of \<open>a.nut\<close>\<close>
  "errorBreak =
     Break \<lparr>break_type = ''error'', break_line = ''3'', break_src = ''a.nut'',
            break_desc = None, break_error = Some ''boom''\<rparr>
       []
       [\<lparr>call_fnc = ''main'', call_src = ''a.nut'', call_line = ''3'', call_w = [],
         call_l = []\<rparr>]"

definition earlyErrorFrame :: string where
  \<comment> \<open>the text of that frame with the attribute \<open>error\<close> first: the marker is at index 7\<close>
  \<open>earlyErrorFrame =
     ''<break error="boom" type="error" line="3" src="a.nut"><objs/><calls>'' @
     ''<call fnc="main" src="a.nut" line="3"/></calls></break>''\<close>

definition lateErrorFrame :: string where
  \<comment> \<open>the same frame with the attribute \<open>error\<close> last: the marker is at index 41\<close>
  \<open>lateErrorFrame =
     ''<break type="error" line="3" src="a.nut" error="boom"><objs/><calls>'' @
     ''<call fnc="main" src="a.nut" line="3"/></calls></break>''\<close>

definition errorExternals :: Externals where
  \<comment> \<open>both texts are read as the frame above, and the file is found once, in the one
      folder of the workspace\<close>
  "errorExternals =
     sampleExternals
       \<lparr>parseString :=
          (\<lambda>text. if text = earlyErrorFrame \<or> text = lateErrorFrame then Inr errorBreak
                   else Inl ''unexpected''),
        getScriptRootDirectories := [''scripts''],
        findFileRecusive := (\<lambda>directory name. Some [directory @ ''/'' @ name])\<rparr>"

definition runningSession :: Session where
  \<comment> \<open>running, with break-on-exception switched off\<close>
  "runningSession =
     new_VScriptDebugSession\<lparr>debuggerState := runnning, resumeOnExceptions := True\<rparr>"

definition resumedExternals :: Externals where
  \<comment> \<open>\<open><resumed/>\<close> is a document with the root \<open>resumed\<close>\<close>
  "resumedExternals =
     sampleExternals
       \<lparr>parseString :=
          (\<lambda>text. if text = ''<resumed/>'' then Inr (OtherRoot ''resumed'')
                   else Inl ''unexpected'')\<rparr>"

definition staleSession :: Session where
  \<comment> \<open>stopped on the newer engine, with watch 1 tracked and not validated in the step\<close>
  "staleSession = stoppedSession\<lparr>scriptVersion := squirrel3\<rparr>"

section \<open>Properties\<close>

subsection \<open>File references\<close>

lemma chooseFile_quiet:
  "snd (chooseFile ext s filename False False fileNames filesArraysArray notFound) = s"
  by (simp add: chooseFile_def)

lemma resolveFileReference_quiet: "snd (resolveFileReference ext s filename False False) = s"
  by (simp add: resolveFileReference_def Let_def chooseFile_quiet)

lemma resolveFileReference_quiet':
  "resolveFileReference ext s filename False False = (file, s1) \<Longrightarrow> s1 = s"
  using resolveFileReference_quiet[of ext s filename] by simp

subsection \<open>Watches\<close>

lemma toHexNat_nonempty: "toHexNat n \<noteq> []"
  by (subst toHexNat.simps) simp

lemma find_split:
  "find p xs = Some w \<Longrightarrow>
     \<exists>ys zs. xs = ys @ w # zs \<and> p w \<and> (\<forall>y\<in>set ys. \<not> p y) \<and> spliceFirst p xs = ys @ zs"
proof (induction xs)
  case Nil
  then show ?case by simp
next
  case (Cons x xs)
  show ?case
  proof (cases "p x")
    case True
    with Cons.prems have "x = w" by simp
    with True show ?thesis by (intro exI[of _ "[]"] exI[of _ xs]) simp
  next
    case False
    with Cons.prems have "find p xs = Some w" by simp
    from Cons.IH[OF this] obtain ys zs where
      "xs = ys @ w # zs" "p w" "\<forall>y\<in>set ys. \<not> p y" "spliceFirst p xs = ys @ zs" by blast
    with False show ?thesis by (intro exI[of _ "x # ys"] exI[of _ zs]) simp
  qed
qed


text \<open>
  C9. \<open>removeWatch\<close> with \<open>affectTables\<close> and an id without the reserved bit: when a
  tracked watch has the id, the first such watch (and no other) leaves \<open>watches\<close>,
  one \<open>rw\<close> command is written and nothing else of the session changes; when no
  tracked watch has the id, the session is unchanged, so nothing is removed and nothing
  is sent.
\<close>

theorem removeWatch_regular:
  "\<not> hasReservedBit i \<Longrightarrow>
     ((\<exists>w\<in>set (watches s). watch_id w = i) \<longrightarrow>
        (\<exists>xs w ys. watches s = xs @ w # ys \<and> watch_id w = i \<and>
           (\<forall>x\<in>set xs. watch_id x \<noteq> i) \<and>
           removeWatch s i True =
             s\<lparr>watches := xs @ ys, socket := socket s @ [rwCommand i]\<rparr>)) \<and>
     ((\<forall>w\<in>set (watches s). watch_id w \<noteq> i) \<longrightarrow> removeWatch s i True = s)"
proof (intro conjI impI)
  assume reg: "\<not> hasReservedBit i" and ex: "\<exists>w\<in>set (watches s). watch_id w = i"
  then obtain w where w: "find (\<lambda>e. watch_id e = i) (watches s) = Some w"
    by (cases "find (\<lambda>e. watch_id e = i) (watches s)") (auto simp: find_None_iff)
  from find_split[OF w] obtain xs ys where
    parts: "watches s = xs @ w # ys" "watch_id w = i" "\<forall>x\<in>set xs. watch_id x \<noteq> i"
      "spliceFirst (\<lambda>e. watch_id e = i) (watches s) = xs @ ys" by blast
  have "removeWatch s i True = s\<lparr>watches := xs @ ys, socket := socket s @ [rwCommand i]\<rparr>"
    using reg w parts(4) by (simp add: removeWatch_def socketWrite_def)
  with parts show "\<exists>xs w ys. watches s = xs @ w # ys \<and> watch_id w = i \<and>
      (\<forall>x\<in>set xs. watch_id x \<noteq> i) \<and>
      removeWatch s i True = s\<lparr>watches := xs @ ys, socket := socket s @ [rwCommand i]\<rparr>"
    by blast
next
  assume reg: "\<not> hasReservedBit i" and none: "\<forall>w\<in>set (watches s). watch_id w \<noteq> i"
  then have "find (\<lambda>e. watch_id e = i) (watches s) = None"
    by (simp add: find_None_iff)
  with reg show "removeWatch s i True = s" by (simp add: removeWatch_def)
qed

theorem removeWatch_regular_witness:
  "\<not> hasReservedBit 2 \<and> (\<exists>w\<in>set (watches twoWatches). watch_id w = 2) \<and>
   watches (removeWatch twoWatches 2 True) = [new_DebuggerWatch 1 ''a''] \<and>
   socket (removeWatch twoWatches 2 True) = [''rw 0x2''] \<and>
   removeWatch twoWatches 7 True = twoWatches"
  using removeWatch_regular[of 2 twoWatches] removeWatch_regular[of 7 twoWatches]
  by (simp add: hasReservedBit_def twoWatches_def new_VScriptDebugSession_def
      new_DebuggerWatch_def removeWatch_def socketWrite_def rwCommand_def toString16_def
      toHexNat.simps hexDigits_def)





subsection \<open>Stepping out and resuming\<close>

lemma removeWatches_eq:
  "removeWatches s ws = s\<lparr>socket := socket s @ map (\<lambda>w. rwCommand (watch_id w)) ws\<rparr>"
  by (induction ws arbitrary: s) (simp_all add: removeWatch_def socketWrite_def)

lemma resumeExecution_socket:
  "socket (resumeExecution s) =
     socket s @ map (\<lambda>w. rwCommand (watch_id w)) (arrayMapToArray (entityDataWatches s)) @
     (if debuggerState s = errored then [''rd'' @ [LF]] else []) @ [''go'' @ [LF]]"
  by (simp add: resumeExecution_def Let_def removeWatches_eq debugPrint_def sendEvent_def
      socketWrite_def)

lemma resumeExecution_fields:
  "debuggerState (resumeExecution s) = ready"
  "entityDataWatches (resumeExecution s) = []"
  "entityDataWatchID (resumeExecution s) = 1000000"
  "stacktraces (resumeExecution s) = stacktraces s"
  "watches (resumeExecution s) = watches s"
  by (simp_all add: resumeExecution_def Let_def removeWatches_eq debugPrint_def sendEvent_def
      socketWrite_def)

lemma rwCommand_not_sr: "rwCommand i \<noteq> ''sr'' @ [LF]"
  by (simp add: rwCommand_def)

text \<open>
  C10. \<open>stepOut\<close> with more than one frame on the call stack writes exactly \<open>sr\<close> and a
  line feed, and leaves the state and the entity-data watches alone. Otherwise it
  resumes: it writes a remove-watch command for every entity-data watch, \<open>rd\<close> when the
  session had stopped on an error, and \<open>go\<close> last; none of what it writes is the
  step-out command; the entity-data watches are cleared and the state is \<open>ready\<close>.
\<close>

theorem stepOut_command:
  "(1 < length (stacktraces s) \<longrightarrow>
      socket (stepOut s) = socket s @ [''sr'' @ [LF]] \<and>
      debuggerState (stepOut s) = debuggerState s \<and>
      entityDataWatches (stepOut s) = entityDataWatches s) \<and>
   (\<not> 1 < length (stacktraces s) \<longrightarrow>
      socket (stepOut s) =
        socket s @ map (\<lambda>w. rwCommand (watch_id w)) (arrayMapToArray (entityDataWatches s)) @
        (if debuggerState s = errored then [''rd'' @ [LF]] else []) @ [''go'' @ [LF]] \<and>
      ''sr'' @ [LF] \<notin> set (drop (length (socket s)) (socket (stepOut s))) \<and>
      entityDataWatches (stepOut s) = [] \<and>
      debuggerState (stepOut s) = ready)"
proof (intro conjI impI)
  assume deep: "1 < length (stacktraces s)"
  then have eq: "stepOut s =
      debugPrint ''Sending 'sr' message (step return)'' (socketWrite (''sr'' @ [LF]) s)"
    by (simp add: stepOut_def)
  show "socket (stepOut s) = socket s @ [''sr'' @ [LF]]"
    by (simp add: eq debugPrint_def sendEvent_def socketWrite_def)
  show "debuggerState (stepOut s) = debuggerState s"
    by (simp add: eq debugPrint_def sendEvent_def socketWrite_def)
  show "entityDataWatches (stepOut s) = entityDataWatches s"
    by (simp add: eq debugPrint_def sendEvent_def socketWrite_def)
next
  assume shallow: "\<not> 1 < length (stacktraces s)"
  then have eq: "stepOut s = resumeExecution s"
    by (simp add: stepOut_def)
  show sock: "socket (stepOut s) =
        socket s @ map (\<lambda>w. rwCommand (watch_id w)) (arrayMapToArray (entityDataWatches s)) @
        (if debuggerState s = errored then [''rd'' @ [LF]] else []) @ [''go'' @ [LF]]"
    by (simp only: eq resumeExecution_socket)
  show "''sr'' @ [LF] \<notin> set (drop (length (socket s)) (socket (stepOut s)))"
  proof -
    have "''sr'' @ [LF] \<notin>
        set (map (\<lambda>w. rwCommand (watch_id w)) (arrayMapToArray (entityDataWatches s)))"
      using rwCommand_not_sr by (auto simp del: append.simps) metis
    then show ?thesis
      unfolding sock by (auto simp: LF_def)
  qed
  show "entityDataWatches (stepOut s) = []"
    by (simp add: eq resumeExecution_fields)
  show "debuggerState (stepOut s) = ready"
    by (simp add: eq resumeExecution_fields)
qed

theorem stepOut_command_witness:
  "1 < length (stacktraces twoFrames) \<and> socket (stepOut twoFrames) = [''sr'' @ [LF]] \<and>
   debuggerState (stepOut twoFrames) = stopped \<and>
   \<not> 1 < length (stacktraces oneFrame) \<and> socket (stepOut oneFrame) = [''go'' @ [LF]] \<and>
   debuggerState (stepOut oneFrame) = ready"
  using stepOut_command[of twoFrames] stepOut_command[of oneFrame]
  by (simp add: twoFrames_def oneFrame_def new_VScriptDebugSession_def arrayMapToArray_def)

subsection \<open>Breakpoints\<close>

text \<open>
  C1 as stated fails. With a breakpoint at line 5 of \<open>a/x.nut\<close>, a request for line 5 of
  \<open>b/x.nut\<close> writes an add-breakpoint command although one breakpoint already maps to
  (\<open>x.nut\<close>, 5): the count of the spec goes from one to two, not from zero to one.
\<close>

theorem add_on_second_path_counterexample:
  "wireRefCount (breakpoints afterFirstPath) ''x.nut'' 5 = 1 \<and>
   wireRefCount (breakpoints afterSecondPath) ''x.nut'' 5 = 2 \<and>
   socket afterSecondPath = socket afterFirstPath @ [abCommand ''b/x.nut'' 5]"
  by code_simp

lemma bucket_update: "bucket (AList.update k v m) k = v"
  by (simp add: bucket_def update_conv')

lemma actualBreakpoints_effect:
  "actualBreakpoints bpPath originalBps lines s = (dapBps, s') \<Longrightarrow>
     socket s' = socket s \<and> map bp_line dapBps = lines \<and>
     bucket (breakpoints s') bpPath = bucket (breakpoints s) bpPath @ dapBps"
proof (induction lines arbitrary: s dapBps s')
  case Nil
  then show ?case by simp
next
  case (Cons line lines)
  let ?bp = "\<lparr>bp_id = breakpointID s, bp_line = line,
       bp_verified = (case find (\<lambda>searchedBp. bp_line searchedBp = line) originalBps of
                          None \<Rightarrow> True | Some existingBp \<Rightarrow> bp_verified existingBp)\<rparr>"
  let ?s1 = "s\<lparr>breakpointID := breakpointID s + 1,
                  breakpoints := AList.update bpPath (bucket (breakpoints s) bpPath @ [?bp])
                                   (breakpoints s)\<rparr>"
  obtain rest s2 where rec: "actualBreakpoints bpPath originalBps lines ?s1 = (rest, s2)"
    by (cases "actualBreakpoints bpPath originalBps lines ?s1")
  with Cons.prems have res: "dapBps = ?bp # rest" "s' = s2"
    by (simp_all add: Let_def)
  from Cons.IH[OF rec] have
    "socket s2 = socket ?s1" "map bp_line rest = lines"
    "bucket (breakpoints s2) bpPath = bucket (breakpoints ?s1) bpPath @ rest" by simp_all
  then show ?case using res by (simp add: bucket_update)
qed

lemma removeOne_socket:
  "socket (removeOne bpPath bp s) = socket s \<or>
   socket (removeOne bpPath bp s) = socket s @ [rbCommand bpPath (bp_line bp)]"
  by (simp add: removeOne_def Let_def newArray_def sendRemoveBreakpoint_def debugPrint_def
      sendEvent_def socketWrite_def)

lemma fold_removeOne_socket:
  "\<exists>removed. set removed \<subseteq> bp_line ` set bps \<and>
     socket (fold (removeOne bpPath) bps s) = socket s @ map (rbCommand bpPath) removed"
proof (induction bps arbitrary: s)
  case Nil
  show ?case by (intro exI[of _ "[]"]) simp
next
  case (Cons bp bps)
  from Cons.IH[of "removeOne bpPath bp s"] obtain removed where
    r: "set removed \<subseteq> bp_line ` set bps"
      "socket (fold (removeOne bpPath) bps (removeOne bpPath bp s)) =
         socket (removeOne bpPath bp s) @ map (rbCommand bpPath) removed" by blast
  from removeOne_socket[of bpPath bp s] show ?case
  proof
    assume "socket (removeOne bpPath bp s) = socket s"
    with r show ?thesis by (intro exI[of _ removed]) auto
  next
    assume "socket (removeOne bpPath bp s) = socket s @ [rbCommand bpPath (bp_line bp)]"
    with r show ?thesis by (intro exI[of _ "bp_line bp # removed"]) auto
  qed
qed

lemma notifyOnce_socket: "socket (notifyOnce ext bpPath s) = socket s"
  by (auto simp: notifyOnce_def Let_def sendEvent_def split: Resolved.splits prod.splits
      dest: resolveFileReference_quiet')

lemma includeOne_socket:
  "socket (includeOne ext bpPath bp s) = socket s @ [abCommand bpPath (bp_line bp)]"
  by (simp add: includeOne_def Let_def newArray_def notifyOnce_socket sendAddBreakpoint_def
      debugPrint_def sendEvent_def socketWrite_def split: prod.splits)

lemma fold_includeOne_socket:
  "socket (fold (includeOne ext bpPath) bps s) =
     socket s @ map (\<lambda>bp. abCommand bpPath (bp_line bp)) bps"
  by (induction bps arbitrary: s) (simp_all add: includeOne_socket)

lemma list_ex_line: "list_ex (\<lambda>inner. bp_line inner = l) bps = (l \<in> bp_line ` set bps)"
  by (auto simp: list_ex_iff)

text \<open>
  C1, amended. A \<open>setBreakpoints\<close> request for a path writes, after the remove commands,
  one add-breakpoint command for every requested line that the path did not have
  before, in the order of the request and whatever other paths of the same basename
  hold; and every remove-breakpoint command it writes is for a line that the path had
  and that the request leaves out. Nothing else is written to the socket.
\<close>

theorem setBreakPoints_commands:
  "path \<noteq> [] \<Longrightarrow>
   \<exists>removed.
     set removed \<subseteq>
       {l \<in> bp_line ` set (bucket (breakpoints s) (forwardSlashes (getRelativeScriptPath ext path))).
          l \<notin> set lines} \<and>
     socket (snd (setBreakPointsRequest ext s (Some path) lines)) =
       socket s @
       map (rbCommand (forwardSlashes (getRelativeScriptPath ext path))) removed @
       map (abCommand (forwardSlashes (getRelativeScriptPath ext path)))
         (filter (\<lambda>l. l \<notin> bp_line `
                    set (bucket (breakpoints s) (forwardSlashes (getRelativeScriptPath ext path))))
            lines)"
proof -
  assume path: "path \<noteq> []"
  let ?bpPath = "forwardSlashes (getRelativeScriptPath ext path)"
  let ?orig = "bucket (breakpoints s) ?bpPath"
  let ?s1 = "s\<lparr>breakpoints := AList.update ?bpPath [] (breakpoints s)\<rparr>"
  obtain dapBps s2 where ab: "actualBreakpoints ?bpPath ?orig lines ?s1 = (dapBps, s2)"
    by (cases "actualBreakpoints ?bpPath ?orig lines ?s1")
  from actualBreakpoints_effect[OF ab] have
    s2: "socket s2 = socket s" "map bp_line dapBps = lines"
      "bucket (breakpoints s2) ?bpPath = dapBps"
    by (simp_all add: bucket_update)
  let ?rem = "filter (\<lambda>element. \<not> list_ex (\<lambda>inner. bp_line inner = bp_line element) dapBps)
      ?orig"
  let ?inc = "filter (\<lambda>element. \<not> list_ex (\<lambda>inner. bp_line inner = bp_line element) ?orig)
      dapBps"
  let ?s3 = "fold (removeOne ?bpPath) ?rem s2"
  have run: "snd (setBreakPointsRequest ext s (Some path) lines) =
      fold (includeOne ext ?bpPath) ?inc ?s3"
    using path ab s2(3) by (simp add: setBreakPointsRequest_def truthy_def Let_def)
  from fold_removeOne_socket[of ?rem ?bpPath s2] obtain removed where
    rem: "set removed \<subseteq> bp_line ` set ?rem"
      "socket ?s3 = socket s2 @ map (rbCommand ?bpPath) removed" by blast
  have lines: "bp_line ` set dapBps = set lines"
    using s2(2) by (metis set_map)
  have sub: "set removed \<subseteq> {l \<in> bp_line ` set ?orig. l \<notin> set lines}"
    using rem(1) lines by (auto simp: list_ex_line)
  have "map bp_line ?inc = filter (\<lambda>l. l \<notin> bp_line ` set ?orig) (map bp_line dapBps)"
    by (simp add: filter_map comp_def list_ex_line)
  then have "map bp_line ?inc = filter (\<lambda>l. l \<notin> bp_line ` set ?orig) lines"
    by (simp only: s2(2))
  moreover have "map (\<lambda>bp. abCommand ?bpPath (bp_line bp)) ?inc =
      map (abCommand ?bpPath) (map bp_line ?inc)"
    by (simp add: comp_def)
  ultimately have inc: "map (\<lambda>bp. abCommand ?bpPath (bp_line bp)) ?inc =
      map (abCommand ?bpPath) (filter (\<lambda>l. l \<notin> bp_line ` set ?orig) lines)"
    by (simp only:)
  show ?thesis
    using sub
    by (intro exI[of _ removed]) (simp add: run fold_includeOne_socket rem(2) s2(1) inc)
qed

theorem setBreakPoints_commands_witness:
  "''b/x.nut'' \<noteq> [] \<and>
   socket (snd (setBreakPointsRequest sampleExternals afterFirstPath (Some ''b/x.nut'') [5, 7])) =
     socket afterFirstPath @ [abCommand ''b/x.nut'' 5, abCommand ''b/x.nut'' 7]"
proof -
  have "socket (snd (setBreakPointsRequest sampleExternals afterFirstPath (Some ''b/x.nut'')
                       [5, 7])) =
      socket afterFirstPath @ [abCommand ''b/x.nut'' 5, abCommand ''b/x.nut'' 7]"
    by code_simp
  with setBreakPoints_commands[of "''b/x.nut''" afterFirstPath sampleExternals "[5, 7]"]
  show ?thesis by simp
qed

subsection \<open>The reference tree\<close>

lemma finite_candidates: "finite (candidates refs)"
  by (simp add: candidates_def)

lemma card_candidates: "card (candidates refs) \<le> length (allElements refs)"
  unfolding candidates_def
  by (meson card_image_le card_length le_trans List.finite_set)

lemma build_grows:
  "(buildReferenceTree fuel refs r n t d vis = Some out \<longrightarrow> set vis \<subseteq> set (searchedOf out))"
  "(buildChildren fuel refs els d vis = Some outs \<longrightarrow> set vis \<subseteq> set (searchedOf outs))"
proof (induction fuel refs r n t d vis and fuel refs els d vis
    arbitrary: out and outs
    rule: buildReferenceTree_buildChildren.induct)
  case (1 referenceList serverReference name type depth searched)
  then show ?case by simp
next
  case (2 fuel referenceList serverReference name type depth searched)
  show ?case
  proof (intro impI)
    assume run: "buildReferenceTree (Suc fuel) referenceList serverReference name type depth searched = Some out"
    show "set searched \<subseteq> set (searchedOf out)"
    proof (cases "find (\<lambda>e. o_ref e = String serverReference) referenceList")
      case None
      with run show ?thesis by auto
    next
      case (Some obj)
      show ?thesis
      proof (cases "o_e obj = [] \<or> serverReference \<in> set searched")
        case True
        with run Some have "out = Returned None searched" by (auto split: if_splits)
        then show ?thesis by simp
      next
        case False
        then have a: "o_e obj \<noteq> []" "serverReference \<notin> set searched" by simp_all
        with run Some obtain outs where
          ch: "buildChildren fuel referenceList (o_e obj) depth (searched @ [serverReference]) = Some outs"
          and "searchedOf out = searchedOf outs"
          by (auto split: option.splits outcome.splits)
        with "2.IH"[OF Some a] show ?thesis by auto
      qed
    qed
  qed
next
  case (3 fuel referenceList depth searched)
  then show ?case by auto
next
  case (4 fuel referenceList el els depth searched)
  show ?case
  proof (intro impI)
    assume run: "buildChildren fuel referenceList (el # els) depth searched = Some outs"
    show "set searched \<subseteq> set (searchedOf outs)"
    proof (cases "isComplexDataType (e_vt el)")
      case False
      with run "4.IH"(3)[OF False] show ?thesis by simp
    next
      case True
      with run obtain o1 where
        first: "buildReferenceTree fuel referenceList (Number (e_v el)) (e_kv el) (e_vt el) depth searched = Some o1"
        by (auto split: option.splits)
      from "4.IH"(1)[OF True] first have g1: "set searched \<subseteq> set (searchedOf o1)" by blast
      show ?thesis
      proof (cases o1)
        case (Threw s1)
        with run True first have "outs = Threw s1" by simp
        with g1 Threw show ?thesis by simp
      next
        case (Returned newNode s1)
        with run True first obtain o2 where
          more: "buildChildren fuel referenceList els (depth + 1) s1 = Some o2"
          and "searchedOf outs = searchedOf o2"
          by (auto split: option.splits outcome.splits)
        with "4.IH"(2)[OF True first Returned] g1 Returned show ?thesis by auto
      qed
    qed
  qed
qed

lemma card_less_after_visit:
  assumes "r \<in> candidates refs" "r \<notin> set vis" "card (candidates refs - set vis) < Suc fuel"
  shows "card (candidates refs - set (vis @ [r])) < fuel"
proof -
  have fin: "finite (candidates refs - set vis)" by (simp add: finite_candidates)
  have mem: "r \<in> candidates refs - set vis" using assms by simp
  have "candidates refs - set (vis @ [r]) = (candidates refs - set vis) - {r}" by auto
  then have "card (candidates refs - set (vis @ [r])) = card (candidates refs - set vis) - 1"
    using fin mem by simp
  moreover have "0 < card (candidates refs - set vis)"
    using fin mem by (auto simp: card_gt_0_iff)
  ultimately show ?thesis using assms(3) by linarith
qed

lemma find_elements_subset:
  "find p refs = Some obj \<Longrightarrow> set (o_e obj) \<subseteq> set (allElements refs)"
proof -
  assume "find p refs = Some obj"
  then have "obj \<in> set refs" by (auto simp: find_Some_iff)
  then show ?thesis by (auto simp: allElements_def)
qed

lemma build_fuel:
  "(r \<in> candidates refs \<longrightarrow> card (candidates refs - set vis) < fuel \<longrightarrow>
      buildReferenceTree fuel refs r n t d vis \<noteq> None)"
  "(set els \<subseteq> set (allElements refs) \<longrightarrow> card (candidates refs - set vis) < fuel \<longrightarrow>
      buildChildren fuel refs els d vis \<noteq> None)"
proof (induction fuel refs r n t d vis and fuel refs els d vis
    rule: buildReferenceTree_buildChildren.induct)
  case (1 referenceList serverReference name type depth searched)
  then show ?case by simp
next
  case (2 fuel referenceList serverReference name type depth searched)
  show ?case
  proof (intro impI)
    assume cand: "serverReference \<in> candidates referenceList"
      and small: "card (candidates referenceList - set searched) < Suc fuel"
    show "buildReferenceTree (Suc fuel) referenceList serverReference name type depth searched \<noteq> None"
    proof (cases "find (\<lambda>e. o_ref e = String serverReference) referenceList")
      case None
      then show ?thesis by simp
    next
      case (Some obj)
      show ?thesis
      proof (cases "o_e obj = [] \<or> serverReference \<in> set searched")
        case True
        with Some show ?thesis by auto
      next
        case False
        then have a: "o_e obj \<noteq> []" "serverReference \<notin> set searched" by simp_all
        have "buildChildren fuel referenceList (o_e obj) depth (searched @ [serverReference]) \<noteq> None"
          using "2.IH"[OF Some a] find_elements_subset[OF Some]
            card_less_after_visit[OF cand a(2) small] by blast
        with Some a show ?thesis by (auto split: outcome.splits)
      qed
    qed
  qed
next
  case (3 fuel referenceList depth searched)
  then show ?case by simp
next
  case (4 fuel referenceList el els depth searched)
  show ?case
  proof (intro impI)
    assume sub: "set (el # els) \<subseteq> set (allElements referenceList)"
      and small: "card (candidates referenceList - set searched) < fuel"
    show "buildChildren fuel referenceList (el # els) depth searched \<noteq> None"
    proof (cases "isComplexDataType (e_vt el)")
      case False
      with "4.IH"(3)[OF False] sub small show ?thesis by simp
    next
      case True
      have "Number (e_v el) \<in> candidates referenceList"
        using sub by (simp add: candidates_def)
      with "4.IH"(1)[OF True] small obtain o1 where
        first: "buildReferenceTree fuel referenceList (Number (e_v el)) (e_kv el) (e_vt el) depth searched = Some o1"
        by blast
      show ?thesis
      proof (cases o1)
        case (Threw s1)
        with True first show ?thesis by simp
      next
        case (Returned newNode s1)
        from build_grows(1) first Returned have "set searched \<subseteq> set s1" by fastforce
        then have "candidates referenceList - set s1 \<subseteq> candidates referenceList - set searched"
          by blast
        then have "card (candidates referenceList - set s1) \<le> card (candidates referenceList - set searched)"
          by (intro card_mono) (simp_all add: finite_candidates)
        with small have "card (candidates referenceList - set s1) < fuel" by simp
        with "4.IH"(2)[OF True first Returned] sub
        have "buildChildren fuel referenceList els (depth + 1) s1 \<noteq> None" by simp
        with True first Returned show ?thesis by (auto split: outcome.splits)
      qed
    qed
  qed
qed

lemma buildReferenceTree_terminates:
  "buildReferenceTree (enoughFuel refs) refs r n t d vis \<noteq> None"
proof -
  let ?N = "length (allElements refs)"
  have fuel: "enoughFuel refs = Suc (Suc ?N)" by (simp add: enoughFuel_def allElements_def)
  show ?thesis
  proof (cases "find (\<lambda>e. o_ref e = String r) refs")
    case None
    then show ?thesis by (simp add: fuel)
  next
    case (Some obj)
    show ?thesis
    proof (cases "o_e obj = [] \<or> r \<in> set vis")
      case True
      with Some show ?thesis by (auto simp: fuel)
    next
      case False
      have "card (candidates refs - set (vis @ [r])) \<le> card (candidates refs)"
        by (intro card_mono) (auto simp: finite_candidates)
      with card_candidates[of refs] have "card (candidates refs - set (vis @ [r])) < Suc ?N"
        by simp
      with build_fuel(2) find_elements_subset[OF Some]
      have "buildChildren (Suc ?N) refs (o_e obj) d (vis @ [r]) \<noteq> None" by blast
      with Some False show ?thesis by (auto simp: fuel split: outcome.splits)
    qed
  qed
qed

lemma build_refs:
  "(buildReferenceTree fuel refs r n t d vis = Some (Returned res vis') \<longrightarrow>
      vis' = vis @ (case res of None \<Rightarrow> [] | Some node \<Rightarrow> treeReferences node) \<and>
      distinct (case res of None \<Rightarrow> [] | Some node \<Rightarrow> treeReferences node) \<and>
      set (case res of None \<Rightarrow> [] | Some node \<Rightarrow> treeReferences node) \<inter> set vis = {})"
  "(buildChildren fuel refs els d vis = Some (Returned nodes vis') \<longrightarrow>
      vis' = vis @ concat (map treeReferences nodes) \<and>
      distinct (concat (map treeReferences nodes)) \<and>
      set (concat (map treeReferences nodes)) \<inter> set vis = {})"
proof (induction fuel refs r n t d vis and fuel refs els d vis
    arbitrary: res vis' and nodes vis'
    rule: buildReferenceTree_buildChildren.induct)
  case (1 referenceList serverReference name type depth searched)
  then show ?case by simp
next
  case (2 fuel referenceList serverReference name type depth searched)
  show ?case
  proof (intro impI)
    assume run: "buildReferenceTree (Suc fuel) referenceList serverReference name type depth
        searched = Some (Returned res vis')"
    show "vis' = searched @ (case res of None \<Rightarrow> [] | Some node \<Rightarrow> treeReferences node) \<and>
      distinct (case res of None \<Rightarrow> [] | Some node \<Rightarrow> treeReferences node) \<and>
      set (case res of None \<Rightarrow> [] | Some node \<Rightarrow> treeReferences node) \<inter> set searched = {}"
    proof (cases "find (\<lambda>e. o_ref e = String serverReference) referenceList")
      case None
      with run show ?thesis by simp
    next
      case (Some obj)
      show ?thesis
      proof (cases "o_e obj = [] \<or> serverReference \<in> set searched")
        case True
        with run Some have "res = None" "vis' = searched" by (auto split: if_splits)
        then show ?thesis by simp
      next
        case False
        with run Some obtain nodes where
          ch: "buildChildren fuel referenceList (o_e obj) depth (searched @ [serverReference]) =
              Some (Returned nodes vis')"
          and res: "res = Some (TreeNode
              \<lparr>reference = serverReference, firstName = name, variableType = type\<rparr> nodes depth)"
          by (auto split: option.splits outcome.splits)
        from False have a: "o_e obj \<noteq> []" "serverReference \<notin> set searched" by simp_all
        from "2.IH"[OF Some a] ch have
          "vis' = (searched @ [serverReference]) @ concat (map treeReferences nodes)"
          "distinct (concat (map treeReferences nodes))"
          "set (concat (map treeReferences nodes)) \<inter> set (searched @ [serverReference]) = {}"
          by blast+
        with a res show ?thesis by auto
      qed
    qed
  qed
next
  case (3 fuel referenceList depth searched)
  then show ?case by simp
next
  case (4 fuel referenceList el els depth searched)
  show ?case
  proof (intro impI)
    assume run: "buildChildren fuel referenceList (el # els) depth searched =
        Some (Returned nodes vis')"
    show "vis' = searched @ concat (map treeReferences nodes) \<and>
      distinct (concat (map treeReferences nodes)) \<and>
      set (concat (map treeReferences nodes)) \<inter> set searched = {}"
    proof (cases "isComplexDataType (e_vt el)")
      case False
      with run have "buildChildren fuel referenceList els depth searched =
          Some (Returned nodes vis')" by simp
      with "4.IH"(3)[OF False] show ?thesis by blast
    next
      case True
      with run obtain newNode s1 rest where
        first: "buildReferenceTree fuel referenceList (Number (e_v el)) (e_kv el) (e_vt el) depth
            searched = Some (Returned newNode s1)"
        and more: "buildChildren fuel referenceList els (depth + 1) s1 = Some (Returned rest vis')"
        and nodes: "nodes = (case newNode of None \<Rightarrow> rest | Some n \<Rightarrow> n # rest)"
        by (auto split: option.splits outcome.splits)
      let ?r1 = "case newNode of None \<Rightarrow> [] | Some node \<Rightarrow> treeReferences node"
      from "4.IH"(1)[OF True] first have
        f: "s1 = searched @ ?r1" "distinct ?r1" "set ?r1 \<inter> set searched = {}" by blast+
      from "4.IH"(2)[OF True first refl] more have
        m: "vis' = s1 @ concat (map treeReferences rest)"
          "distinct (concat (map treeReferences rest))"
          "set (concat (map treeReferences rest)) \<inter> set s1 = {}" by blast+
      have cc: "concat (map treeReferences nodes) = ?r1 @ concat (map treeReferences rest)"
        using nodes by (cases newNode) simp_all
      from f m show ?thesis unfolding cc by auto
    qed
  qed
qed

lemma buildReferenceTree_searched_no_node:
  "r \<in> set searched \<Longrightarrow>
     buildReferenceTree fuel refs r n t d searched \<noteq> Some (Returned (Some node) searched')"
  by (cases fuel) (auto split: option.splits)

lemma buildReferenceTree_self_reference:
  assumes "o_ref obj = String r" "o_e obj = [el]" "isComplexDataType (e_vt el)"
    "Number (e_v el) = r" "r \<notin> set searched"
  shows "buildReferenceTree (enoughFuel [obj]) [obj] r n t d searched =
     Some (Returned
       (Some (TreeNode \<lparr>reference = r, firstName = n, variableType = t\<rparr> [] d))
       (searched @ [r]))"
proof -
  have fuel: "enoughFuel [obj] = Suc (Suc (Suc 0))"
    using assms(2) by (simp add: enoughFuel_def)
  show ?thesis
    using assms by (simp add: fuel)
qed

text \<open>
  C4. \<open>buildReferenceTree\<close> returns: with the fuel of \<open>enoughFuel\<close> the recursion of the
  model ends on every list of objects, every reference and every list of visited
  references. On an object whose one element is the object itself it returns a tree of
  exactly one node, for that reference. In general the nodes of a tree it returns have
  different references, none of them in the visited list it was given, and it adds
  exactly these references to the list; called for a reference that is in the visited
  list it returns no node.
\<close>

theorem buildReferenceTree_cycle_guard:
  "buildReferenceTree (enoughFuel referenceList) referenceList r name type d searched \<noteq> None \<and>
   (o_ref obj = String r \<and> o_e obj = [el] \<and> isComplexDataType (e_vt el) \<and>
    Number (e_v el) = r \<and> r \<notin> set searched \<longrightarrow>
      buildReferenceTree (enoughFuel [obj]) [obj] r name type d searched =
        Some (Returned
          (Some (TreeNode \<lparr>reference = r, firstName = name, variableType = type\<rparr> [] d))
          (searched @ [r]))) \<and>
   (buildReferenceTree fuel referenceList r name type d searched =
      Some (Returned (Some node) searched') \<longrightarrow>
      distinct (treeReferences node) \<and> set (treeReferences node) \<inter> set searched = {} \<and>
      searched' = searched @ treeReferences node) \<and>
   (r \<in> set searched \<longrightarrow>
      (\<forall>node searched'. buildReferenceTree fuel referenceList r name type d searched \<noteq>
         Some (Returned (Some node) searched')))"
proof (intro conjI impI allI)
  show "buildReferenceTree (enoughFuel referenceList) referenceList r name type d searched \<noteq> None"
    by (rule buildReferenceTree_terminates)
next
  assume "o_ref obj = String r \<and> o_e obj = [el] \<and> isComplexDataType (e_vt el) \<and>
    Number (e_v el) = r \<and> r \<notin> set searched"
  then have "o_ref obj = String r" "o_e obj = [el]" "isComplexDataType (e_vt el)"
    "Number (e_v el) = r" "r \<notin> set searched" by blast+
  then show "buildReferenceTree (enoughFuel [obj]) [obj] r name type d searched =
        Some (Returned
          (Some (TreeNode \<lparr>reference = r, firstName = name, variableType = type\<rparr> [] d))
          (searched @ [r]))"
    by (rule buildReferenceTree_self_reference)
next
  assume run: "buildReferenceTree fuel referenceList r name type d searched =
      Some (Returned (Some node) searched')"
  from build_refs(1)[of fuel referenceList r name type d searched "Some node" searched'] run
  show "distinct (treeReferences node)" "set (treeReferences node) \<inter> set searched = {}"
    "searched' = searched @ treeReferences node"
    by simp_all
next
  fix node searched'
  assume "r \<in> set searched"
  then show "buildReferenceTree fuel referenceList r name type d searched \<noteq>
      Some (Returned (Some node) searched')"
    by (rule buildReferenceTree_searched_no_node)
qed

lemmas number_eval =
  Number_def String_def digitValue_def toDecNat.simps decDigits_def Let_def

lemma selfObject_tree:
  "buildReferenceTree (enoughFuel [selfObject]) [selfObject] (Num 5) ''me'' ''x'' 0 [] =
     Some (Returned
       (Some (TreeNode \<lparr>reference = Num 5, firstName = ''me'', variableType = ''x''\<rparr> [] 0))
       [Num 5])"
  by (simp add: selfObject_def enoughFuel_def number_eval isComplexDataType_def
      numeral_3_eq_3)

theorem buildReferenceTree_cycle_guard_witness:
  "o_ref selfObject = String (Num 5) \<and> Number (e_v (hd (o_e selfObject))) = Num 5 \<and>
   buildReferenceTree (enoughFuel [selfObject]) [selfObject] (Num 5) ''me'' ''x'' 0 [] =
     Some (Returned
       (Some (TreeNode \<lparr>reference = Num 5, firstName = ''me'', variableType = ''x''\<rparr> [] 0))
       [Num 5]) \<and>
   treeReferences (TreeNode \<lparr>reference = Num 5, firstName = ''me'', variableType = ''x''\<rparr> [] 0) =
     [Num 5] \<and>
   buildReferenceTree (enoughFuel [selfObject]) [selfObject] (Num 5) ''me'' ''x'' 0 [Num 5] =
     Some (Returned None [Num 5])"
  using buildReferenceTree_cycle_guard[of "[selfObject]" "Num 5" "''me''" "''x''" 0 "[]"
      selfObject "hd (o_e selfObject)" "enoughFuel [selfObject]"
      "TreeNode \<lparr>reference = Num 5, firstName = ''me'', variableType = ''x''\<rparr> [] 0" "[Num 5]"]
    buildReferenceTree_cycle_guard[of "[selfObject]" "Num 5" "''me''" "''x''" 0 "[Num 5]"
      selfObject "hd (o_e selfObject)" "enoughFuel [selfObject]"]
  by (simp add: selfObject_def enoughFuel_def number_eval isComplexDataType_def numeral_3_eq_3)

subsection \<open>Short representations\<close>









subsection \<open>Refresh frames\<close>


lemma updateWatch_kept: "kept s (updateWatch watchId f s)"
  by (simp add: kept_def updateWatch_def)















subsection \<open>Resuming past exceptions\<close>

text \<open>
  C8 as stated fails: the search for the marker starts at index 25. A step-stop frame
  for an error whose \<open>error\<close> attribute comes first has the marker at index 7 of its
  first 120 characters; it is parsed in full, and the session stops on the exception
  instead of resuming.
\<close>

theorem early_marker_counterexample:
  "resumeOnExceptions runningSession \<and> debuggerState runningSession \<noteq> stopped \<and>
   take 6 (drop 7 (slice0 earlyErrorFrame 120)) = ''error='' \<and>
   debuggerState (parseReceivedData errorExternals runningSession earlyErrorFrame) = errored \<and>
   socket (parseReceivedData errorExternals runningSession earlyErrorFrame) = [] \<and>
   list_ex isStoppedEvent
     (events (parseReceivedData errorExternals runningSession earlyErrorFrame))"
  by code_simp

lemma includesStr_iff:
  "includesStr s t \<longleftrightarrow> (\<exists>i. i + length t \<le> length s \<and> take (length t) (drop i s) = t)"
proof (induction s)
  case Nil
  then show ?case by auto
next
  case (Cons c cs)
  have "(\<exists>i. i + length t \<le> length (c # cs) \<and> take (length t) (drop i (c # cs)) = t) \<longleftrightarrow>
      (length t \<le> length (c # cs) \<and> take (length t) (c # cs) = t) \<or>
      (\<exists>j. j + length t \<le> length cs \<and> take (length t) (drop j cs) = t)"
    (is "?L \<longleftrightarrow> ?A \<or> ?B")
  proof
    assume ?L
    then obtain i where i: "i + length t \<le> length (c # cs)" "take (length t) (drop i (c # cs)) = t"
      by blast
    show "?A \<or> ?B"
    proof (cases i)
      case 0
      with i show ?thesis by simp
    next
      case (Suc j)
      with i have "j + length t \<le> length cs \<and> take (length t) (drop j cs) = t" by simp
      then show ?thesis by blast
    qed
  next
    assume "?A \<or> ?B"
    then show ?L
    proof
      assume ?A
      then show ?L by (intro exI[of _ 0]) simp
    next
      assume ?B
      then obtain j where "j + length t \<le> length cs" "take (length t) (drop j cs) = t" by blast
      then show ?L by (intro exI[of _ "Suc j"]) simp
    qed
  qed
  moreover have "startsWith (c # cs) t \<longleftrightarrow> ?A"
  proof -
    have "length t \<le> length (c # cs)" if h: "take (length t) (c # cs) = t"
    proof -
      from arg_cong[OF h, of length] have "min (length (c # cs)) (length t) = length t"
        by simp
      then show ?thesis by linarith
    qed
    then show ?thesis by (auto simp: startsWith_def)
  qed
  ultimately show ?case using Cons.IH by simp
qed

lemma marker_found:
  assumes "25 \<le> i" "i + 6 \<le> 120" "take 6 (drop i receivedData) = ''error=''"
  shows "includesFrom (slice0 receivedData 120) ''error='' 25"
proof -
  have len: "i + 6 \<le> length receivedData"
  proof -
    have "length (take 6 (drop i receivedData)) = 6" using assms(3) by simp
    then show ?thesis by simp
  qed
  let ?w = "drop 25 (take 120 receivedData)"
  have "drop (i - 25) ?w = take (120 - i) (drop i receivedData)"
    using assms(1,2) by (simp add: drop_take)
  then have "take 6 (drop (i - 25) ?w) = take 6 (drop i receivedData)"
    using assms(2) by (simp add: min_def)
  moreover have "(i - 25) + 6 \<le> length ?w"
    using assms(1,2) len by simp
  ultimately have "(i - 25) + 6 \<le> length ?w \<and> take 6 (drop (i - 25) ?w) = ''error=''"
    using assms(3) by simp
  then have "\<exists>j. j + 6 \<le> length ?w \<and> take 6 (drop j ?w) = ''error=''"
    by (rule exI[of _ "i - 25"])
  moreover have "length ''error='' = 6" by simp
  ultimately have "includesStr ?w ''error=''"
    by (simp only: includesStr_iff)
  then show ?thesis
    by (simp only: includesFrom_def slice0_def)
qed

text \<open>
  C8, amended. With break-on-exception switched off and a state other than \<open>stopped\<close>,
  a received frame in which the marker \<open>error=\<close> stands at an index from 25 on and ends
  within the first 120 characters is never handed to the parser (the result is the same
  for every parser): the timer and \<open>watchesThisStep\<close> are cleared, the session resumes,
  so that \<open>go\<close> is the last command written and the state is \<open>ready\<close>, and the cached
  file-path resolutions are discarded.
\<close>

theorem error_marker_resumes:
  "resumeOnExceptions s \<and> debuggerState s \<noteq> stopped \<and>
   25 \<le> i \<and> i + 6 \<le> 120 \<and> take 6 (drop i receivedData) = ''error='' \<longrightarrow>
     parseReceivedData ext s receivedData =
       resetFileReferences (resumeExecution (s\<lparr>resumeTimer := False, watchesThisStep := []\<rparr>)) \<and>
     parseReceivedData ext s receivedData = parseReceivedData ext' s receivedData \<and>
     debuggerState (parseReceivedData ext s receivedData) = ready \<and>
     last (socket (parseReceivedData ext s receivedData)) = ''go'' @ [LF] \<and>
     resolvedFileReferences (parseReceivedData ext s receivedData) = []"
proof (intro impI)
  assume a: "resumeOnExceptions s \<and> debuggerState s \<noteq> stopped \<and>
   25 \<le> i \<and> i + 6 \<le> 120 \<and> take 6 (drop i receivedData) = ''error=''"
  then have found: "includesFrom (slice0 receivedData 120) ''error='' 25"
    by (intro marker_found[of i]) simp_all
  have "receivedData \<noteq> resumedFrame"
  proof
    assume "receivedData = resumedFrame"
    with a have "take 6 (drop i resumedFrame) = ''error=''" "25 \<le> i" by simp_all
    then show False by (simp add: resumedFrame_def CRLF_def)
  qed
  with a found have eq: "parseReceivedData e s receivedData =
      resetFileReferences (resumeExecution (s\<lparr>resumeTimer := False, watchesThisStep := []\<rparr>))"
    for e by (simp add: parseReceivedData_def Let_def)
  show "parseReceivedData ext s receivedData =
       resetFileReferences (resumeExecution (s\<lparr>resumeTimer := False, watchesThisStep := []\<rparr>)) \<and>
     parseReceivedData ext s receivedData = parseReceivedData ext' s receivedData \<and>
     debuggerState (parseReceivedData ext s receivedData) = ready \<and>
     last (socket (parseReceivedData ext s receivedData)) = ''go'' @ [LF] \<and>
     resolvedFileReferences (parseReceivedData ext s receivedData) = []"
    by (simp add: eq resetFileReferences_def resumeExecution_fields resumeExecution_socket)
qed

theorem error_marker_resumes_witness:
  "resumeOnExceptions runningSession \<and> debuggerState runningSession \<noteq> stopped \<and>
   take 6 (drop 41 lateErrorFrame) = ''error='' \<and>
   debuggerState (parseReceivedData errorExternals runningSession lateErrorFrame) = ready \<and>
   socket (parseReceivedData errorExternals runningSession lateErrorFrame) = [''go'' @ [LF]] \<and>
   events (parseReceivedData errorExternals runningSession lateErrorFrame) = []"
  using error_marker_resumes[of runningSession 41 lateErrorFrame errorExternals errorExternals]
  by code_simp


subsection \<open>The resumed acknowledgement\<close>

text \<open>
  C2 fails on the code. \<open>onRecieveData\<close> splits the buffer on the terminator before it
  hands a package to \<open>parseReceivedData\<close>, which compares the package with the literal
  \<open><resumed/>\<close> followed by the terminator: the comparison fails, the package is parsed
  as a document with an unknown root and dropped. The state stays \<open>stopped\<close>, no continued
  event is sent and the stale watch stays tracked. Called with the literal itself,
  \<open>parseReceivedData\<close> does set the state to running and prunes the watch.
\<close>

theorem resumed_frame_not_recognised:
  "debuggerState (onRecieveData resumedExternals staleSession (''<resumed/>'' @ CRLF)) = stopped \<and>
   watches (onRecieveData resumedExternals staleSession (''<resumed/>'' @ CRLF)) =
     watches staleSession \<and>
   events (onRecieveData resumedExternals staleSession (''<resumed/>'' @ CRLF)) = [] \<and>
   socket (onRecieveData resumedExternals staleSession (''<resumed/>'' @ CRLF)) = [] \<and>
   debuggerState (parseReceivedData resumedExternals staleSession (''<resumed/>'' @ CRLF)) =
     runnning \<and>
   watches (parseReceivedData resumedExternals staleSession (''<resumed/>'' @ CRLF)) = []"
  by code_simp

subsection \<open>Receiving\<close>

lemma resumeExecution_logging [simp]:
  "enableDebugLogging (resumeExecution s) = enableDebugLogging s"
  by (simp add: resumeExecution_def Let_def removeWatches_eq debugPrint_def sendEvent_def
      socketWrite_def)

lemma sendEvent_logging [simp]: "enableDebugLogging (sendEvent ev s) = enableDebugLogging s"
  by (simp add: sendEvent_def)


lemma stepOut_logging [simp]: "enableDebugLogging (stepOut s) = enableDebugLogging s"
  by (simp add: stepOut_def debugPrint_def sendEvent_def socketWrite_def)






























end
